theory Spec2Isabelle
  imports Main "HOL-Library.AList"
begin

section \<open>Data model\<close>

text \<open>
  The conference bot keeps an in-memory catalog of the rooms that make up a conference
  (class \<open>Conference\<close>) and talks to three collaborators: the Matrix client
  (\<open>this.client\<close>), the configuration (\<open>config\<close>) and the backend database
  (\<open>this.backendDb\<close>). Every call on a collaborator is an \<open>await\<close> that may reject;
  it is modelled as a field of the record \<open>world\<close> that returns either an error or a
  value. JavaScript objects used as dictionaries are association lists: assigning
  \<open>obj[k] = v\<close> replaces the value of an existing key in place and appends a new key,
  which is what \<open>AList.update\<close> does. Keys and identifiers are strings; the keys that
  JavaScript orders or treats specially (integer-like keys, \<open>__proto__\<close>) and the
  inherited properties seen by the \<open>in\<close> operator are outside the model.
\<close>

type_synonym room_id = string
type_synonym user_id = string

datatype error = RequestError string | TypeError string

text \<open>The enum \<open>RoomKind\<close> and the enum \<open>Role\<close>; a kind flag or role outside
  the enum is \<open>None\<close> or \<open>OtherRole\<close>.\<close>

datatype RoomKind = Conference | Auditorium | AuditoriumBackstage | Talk | SpecialInterest

datatype Role = Speaker | Host | Coordinator | OtherRole string

text \<open>\<open>MembershipEvent.effectiveMembership\<close> of the client library.\<close>

datatype EffectiveMembership = Join | Invite | Leave

text \<open>The event types the code compares against. \<open>RS_STORED_PERSON\<close> and
  \<open>RS_STORED_SUBSPACE\<close> are constants of \<open>models/room_state\<close>.\<close>

datatype ev_type =
    MRoomCreate | MRoomThirdPartyInvite | MRoomMember | MRoomPowerLevels
  | RS_STORED_PERSON | RS_STORED_SUBSPACE | OtherType string

text \<open>The fields of an \<open>m.room.create\<close> content that \<open>construct\<close> reads:
  \<open>createEvent[RSC_CONFERENCE_ID]\<close>, \<open>createEvent[RSC_ROOM_KIND_FLAG]\<close> and the three
  logical identifiers. An absent field is \<open>None\<close>.\<close>

record create_content =
  rsc_conference_id :: "string option"
  rsc_room_kind_flag :: "RoomKind option"
  rsc_auditorium_id :: "string option"
  rsc_talk_id :: "string option"
  rsc_special_interest_id :: "string option"

record IStoredPerson =
  pentaId :: "string option"
  userId :: "string option"

text \<open>Event contents, by shape. \<open>CThirdPartyInvite p\<close> carries
  \<open>content[RS_3PID_PERSON_ID]\<close>; \<open>CPowerLevels u\<close> carries \<open>content['users']\<close>.\<close>

datatype content =
    CCreate create_content
  | CThirdPartyInvite "string option"
  | CMember EffectiveMembership
  | CPowerLevels "(user_id \<times> int) list option"
  | CStoredPerson IStoredPerson
  | CStoredSubspace "room_id option"
  | COther

record state_event =
  ev_type :: ev_type
  state_key :: string
  sender :: user_id
  ev_content :: "content option"

record IDbPerson =
  person_id :: string
  matrix_id :: "string option"
  event_role :: Role

record ResolvedPersonIdentifier =
  mxid :: "string option"
  person :: IDbPerson

text \<open>An incoming \<open>room.event\<close>: its type, its state key and
  \<open>content?.third_party_invite\<close> (\<open>None\<close> when falsy, otherwise
  \<open>signed?.token\<close>, which may itself be undefined).\<close>

record room_event =
  re_type :: ev_type
  re_state_key :: string
  re_third_party_invite :: "string option option"

text \<open>What the code asks of its collaborators. Reads are answers of the world; the
  world also says whether a write or an invite rejects. \<open>getUserId\<close> is the agent's
  own identity, which the client caches. The functions \<open>getId\<close> (of the room
  classes), \<open>resolveIdentifiers\<close> and \<open>invitePersonToRoom\<close> (of \<open>invites\<close>) are
  not among the sources and are taken as they come.

  An effect is a state event the substrate accepted, a call of \<open>invitePersonToRoom\<close>
  (whatever its result), or an error message that was logged.\<close>

record world =
  getUserId :: user_id
  moderatorUserId :: user_id
  existingInterestRooms :: "(string \<times> string) list"
  getJoinedRooms :: "error + room_id list"
  getRoomStateEvent :: "room_id \<Rightarrow> ev_type \<Rightarrow> string option \<Rightarrow> error + content"
  getRoomState :: "room_id \<Rightarrow> error + state_event list"
  resolveRoom :: "string \<Rightarrow> error + room_id"
  getSpace :: "room_id option \<Rightarrow> error + room_id"
  sendStateEvent :: "room_id \<Rightarrow> ev_type \<Rightarrow> string \<Rightarrow> content \<Rightarrow> error option"
  findPeopleWithId :: "string \<Rightarrow> error + IDbPerson list"
  findAllPeopleForAuditorium :: "string \<Rightarrow> error + IDbPerson list"
  findAllPeopleForTalk :: "string \<Rightarrow> error + IDbPerson list"
  getId :: "room_id \<Rightarrow> error + string"
  resolveIdentifiers :: "IDbPerson list \<Rightarrow> error + ResolvedPersonIdentifier list"
  invitePersonToRoom :: "ResolvedPersonIdentifier \<Rightarrow> room_id \<Rightarrow> error option"

datatype effect =
    SentStateEvent room_id ev_type string content
  | InviteIssued ResolvedPersonIdentifier room_id
  | LoggedError string

text \<open>The fields of class \<open>Conference\<close>. An entity object (\<open>Auditorium\<close>, \<open>Talk\<close>,
  \<open>Space\<close>, ...) is represented by the room identifier it wraps.\<close>

record conference =
  conf_id :: string
  dbRoom :: "room_id option"
  subspaces :: "(string \<times> room_id) list"
  auditoriums :: "(string \<times> room_id) list"
  auditoriumBackstages :: "(string \<times> room_id) list"
  talks :: "(string \<times> room_id) list"
  interestRooms :: "(string \<times> room_id) list"
  people :: "(string \<times> IStoredPerson) list"

subsection \<open>JavaScript conventions\<close>

text \<open>Truthiness of an optional string (\<open>!!x\<close>): undefined and the empty string are
  falsy. Truthiness of a stored power level (\<open>pls['users'][userId]\<close>): a missing entry
  and the number 0 are falsy.\<close>

definition truthy :: "string option \<Rightarrow> bool" where
  "truthy x = (case x of None \<Rightarrow> False | Some s \<Rightarrow> s \<noteq> [])"

definition truthy_level :: "int option \<Rightarrow> bool" where
  "truthy_level x = (case x of None \<Rightarrow> False | Some n \<Rightarrow> n \<noteq> 0)"

text \<open>A property key: \<open>obj[undefined]\<close> is the key \<open>"undefined"\<close>.\<close>

definition js_key :: "string option \<Rightarrow> string" where
  "js_key x = (case x of None \<Rightarrow> ''undefined'' | Some s \<Rightarrow> s)"

section \<open>Permission reconciler: \<open>Conference.ensurePermissionsFor\<close>\<close>

text \<open>The loop \<open>for (const userId of mxids) { if (pls['users'][userId]) continue;
  pls['users'][userId] = 50; }\<close>, and before it
  \<open>people.filter(t => !!t.mxid).map(r => r.mxid)\<close>. A power-levels content with no
  \<open>users\<close> object makes the first assignment throw a TypeError.\<close>

fun grant_moderators :: "user_id list \<Rightarrow> (user_id \<times> int) list \<Rightarrow> (user_id \<times> int) list" where
  "grant_moderators [] users = users"
| "grant_moderators (u # us) users =
     (if truthy_level (map_of users u) then grant_moderators us users
      else grant_moderators us (AList.update u 50 users))"

definition target_mxids :: "ResolvedPersonIdentifier list \<Rightarrow> user_id list" where
  "target_mxids ps = List.map_filter (\<lambda>t. if truthy (mxid t) then mxid t else None) ps"

text \<open>The three writes into \<open>pls['users']\<close>: the agent, the configured moderator,
  then the loop.\<close>

definition merge_users :: "world \<Rightarrow> user_id list \<Rightarrow> (user_id \<times> int) list \<Rightarrow> (user_id \<times> int) list" where
  "merge_users w mxids users =
     grant_moderators mxids
       (AList.update (moderatorUserId w) 100 (AList.update (getUserId w) 100 users))"

definition ensurePermissionsFor ::
  "world \<Rightarrow> ResolvedPersonIdentifier list \<Rightarrow> room_id \<Rightarrow> error option \<times> effect list" where
  "ensurePermissionsFor w ps roomId =
     (let mxids = target_mxids ps in
      case getRoomStateEvent w roomId MRoomPowerLevels (Some []) of
        Inl e \<Rightarrow> (Some e, [])
      | Inr pls \<Rightarrow>
          (case pls of
             CPowerLevels (Some users) \<Rightarrow>
               (let pls' = CPowerLevels (Some (merge_users w mxids users))
                in case sendStateEvent w roomId MRoomPowerLevels [] pls' of
                     Some e \<Rightarrow> (Some e, [])
                   | None \<Rightarrow> (None, [SentStateEvent roomId MRoomPowerLevels [] pls']))
           | _ \<Rightarrow> (Some (TypeError ''pls.users is undefined''), [])))"

section \<open>Membership reconciler: \<open>InviteCommand.ensureInvited\<close>\<close>

text \<open>\<open>s.content?.[RS_3PID_PERSON_ID]\<close> and the effective membership of a member
  event; a content of another shape has neither a person ID nor a join.\<close>

definition content_person_id :: "content option \<Rightarrow> string option" where
  "content_person_id c = (case c of Some (CThirdPartyInvite p) \<Rightarrow> p | _ \<Rightarrow> None)"











section \<open>Catalog builder: \<open>Conference.reset\<close> and \<open>Conference.construct\<close>\<close>

definition reset :: "conference \<Rightarrow> conference" where
  "reset c = c\<lparr>dbRoom := None, subspaces := [], auditoriums := [],
               auditoriumBackstages := [], talks := [], interestRooms := [], people := []\<rparr>"

text \<open>The body of one task after its \<open>await\<close>: the test of the conference ID and the
  \<open>switch\<close> on the kind flag. A content that is not a creation record has no
  conference ID.\<close>

definition classifyRoom :: "room_id \<Rightarrow> content \<Rightarrow> conference \<Rightarrow> conference" where
  "classifyRoom roomId createEvent c =
     (case createEvent of
        CCreate ce \<Rightarrow>
          (if rsc_conference_id ce = Some (conf_id c) then
             (case rsc_room_kind_flag ce of
                Some Conference \<Rightarrow> c\<lparr>dbRoom := Some roomId\<rparr>
              | Some Auditorium \<Rightarrow>
                  c\<lparr>auditoriums := AList.update (js_key (rsc_auditorium_id ce)) roomId (auditoriums c)\<rparr>
              | Some AuditoriumBackstage \<Rightarrow>
                  c\<lparr>auditoriumBackstages :=
                      AList.update (js_key (rsc_auditorium_id ce)) roomId (auditoriumBackstages c)\<rparr>
              | Some Talk \<Rightarrow>
                  c\<lparr>talks := AList.update (js_key (rsc_talk_id ce)) roomId (talks c)\<rparr>
              | Some SpecialInterest \<Rightarrow>
                  c\<lparr>interestRooms :=
                      AList.update (js_key (rsc_special_interest_id ce)) roomId (interestRooms c)\<rparr>
              | None \<Rightarrow> c)
           else c)
      | _ \<Rightarrow> c)"

text \<open>
  One batch: \<open>await Promise.all(tasks)\<close>. Every task of the batch is started; a task
  whose read rejects makes \<open>Promise.all\<close> reject with that error, while the other tasks
  of the batch still run to their end and write into the catalog. The reads of a batch
  are taken to settle in the order they were issued. The result is the first error, if
  any, and the catalog once every task of the batch has settled.
\<close>

fun run_batch :: "world \<Rightarrow> room_id list \<Rightarrow> conference \<Rightarrow> error option \<times> conference" where
  "run_batch w [] c = (None, c)"
| "run_batch w (roomId # rest) c =
     (case getRoomStateEvent w roomId MRoomCreate (Some []) of
        Inl e \<Rightarrow> (Some e, snd (run_batch w rest c))
      | Inr createEvent \<Rightarrow> run_batch w rest (classifyRoom roomId createEvent c))"

definition batchSize :: nat where
  "batchSize = 20"

text \<open>\<open>roomIds.slice(i, j)\<close> for \<open>0 \<le> i \<le> j\<close>.\<close>

definition slice :: "'a list \<Rightarrow> nat \<Rightarrow> nat \<Rightarrow> 'a list" where
  "slice xs i j = take (j - i) (drop i xs)"

text \<open>\<open>for (let i = 0; i < roomIds.length; i += batchSize)\<close>: a rejected batch throws
  out of \<open>construct\<close>, so no later batch is started.\<close>

function construct_rooms ::
  "world \<Rightarrow> room_id list \<Rightarrow> nat \<Rightarrow> conference \<Rightarrow> error option \<times> conference" where
  "construct_rooms w roomIds i c =
     (if i < length roomIds then
        (let r = run_batch w (slice roomIds i (i + batchSize)) c in
         case fst r of
           Some e \<Rightarrow> (Some e, snd r)
         | None \<Rightarrow> construct_rooms w roomIds (i + batchSize) (snd r))
      else (None, c))"
  by pat_completeness auto
termination
  by (relation "measure (\<lambda>(w, roomIds, i, c). length roomIds - i)") (auto simp: batchSize_def)

declare construct_rooms.simps [simp del]

text \<open>The loop over \<open>config.conference.existingInterestRooms\<close>; a room that does not
  resolve is passed over.\<close>

fun resolve_existing :: "world \<Rightarrow> (string \<times> string) list \<Rightarrow> conference \<Rightarrow> conference" where
  "resolve_existing w [] c = c"
| "resolve_existing w ((interestId, roomIdOrAlias) # rest) c =
     (if map_of (interestRooms c) interestId \<noteq> None then resolve_existing w rest c
      else (case resolveRoom w roomIdOrAlias of
              Inl e \<Rightarrow> resolve_existing w rest c
            | Inr roomId \<Rightarrow>
                resolve_existing w rest
                  (c\<lparr>interestRooms := AList.update interestId roomId (interestRooms c)\<rparr>)))"

text \<open>\<open>s.content as IStoredPerson\<close> and \<open>subspaceEvent.content.roomId\<close>; a content of
  another shape has none of these fields.\<close>

definition content_as_person :: "content option \<Rightarrow> IStoredPerson" where
  "content_as_person c =
     (case c of Some (CStoredPerson p) \<Rightarrow> p | _ \<Rightarrow> \<lparr>pentaId = None, userId = None\<rparr>)"

definition content_roomId :: "content option \<Rightarrow> room_id option" where
  "content_roomId c = (case c of Some (CStoredSubspace r) \<Rightarrow> r | _ \<Rightarrow> None)"

definition load_people :: "state_event list \<Rightarrow> conference \<Rightarrow> conference" where
  "load_people dbState c =
     fold (\<lambda>p c. c\<lparr>people := AList.update (js_key (pentaId p)) p (people c)\<rparr>)
          (map (\<lambda>s. content_as_person (ev_content s))
               (filter (\<lambda>s. ev_type s = RS_STORED_PERSON) dbState)) c"

fun load_subspaces :: "world \<Rightarrow> state_event list \<Rightarrow> conference \<Rightarrow> error option \<times> conference" where
  "load_subspaces w [] c = (None, c)"
| "load_subspaces w (subspaceEvent # rest) c =
     (case getSpace w (content_roomId (ev_content subspaceEvent)) of
        Inl e \<Rightarrow> (Some e, c)
      | Inr space \<Rightarrow>
          load_subspaces w rest
            (c\<lparr>subspaces := AList.update (state_key subspaceEvent) space (subspaces c)\<rparr>))"

definition construct :: "world \<Rightarrow> conference \<Rightarrow> error option \<times> conference" where
  "construct w c =
     (let c0 = reset c in
      case getJoinedRooms w of
        Inl e \<Rightarrow> (Some e, c0)
      | Inr roomIds \<Rightarrow>
          (let r = construct_rooms w roomIds 0 c0 in
           case fst r of
             Some e \<Rightarrow> (Some e, snd r)
           | None \<Rightarrow>
               (let c2 = resolve_existing w (existingInterestRooms w) (snd r) in
                case dbRoom c2 of
                  None \<Rightarrow> (None, c2)
                | Some db \<Rightarrow>
                    (case getRoomState w db of
                       Inl e \<Rightarrow> (Some e, c2)
                     | Inr roomState \<Rightarrow>
                         (let dbState = filter (\<lambda>s. ev_content s \<noteq> None) roomState;
                              c3 = load_people dbState c2
                          in load_subspaces w
                               (filter (\<lambda>s. ev_type s = RS_STORED_SUBSPACE) dbState) c3)))))"

subsection \<open>Vocabulary for the properties of the catalog builder\<close>

text \<open>The read of a room's creation record, and what one task does to the catalog: a
  task whose read rejects writes nothing.\<close>

definition read_create :: "world \<Rightarrow> room_id \<Rightarrow> error + content" where
  "read_create w r = getRoomStateEvent w r MRoomCreate (Some [])"

definition classify_step :: "world \<Rightarrow> room_id \<Rightarrow> conference \<Rightarrow> conference" where
  "classify_step w r c = (case read_create w r of Inl e \<Rightarrow> c | Inr ev \<Rightarrow> classifyRoom r ev c)"

text \<open>
  The words of the spec. The catalog has one bucket per kind; the bucket of the kind
  \<open>Conference\<close> is the root room, held under the conference ID. The logical ID of a
  creation record is the field that the \<open>switch\<close> reads for its kind. A room matches
  the conference when its creation record carries the conference ID, and it claims the
  key \<open>key\<close> of the bucket \<open>kind\<close> when, moreover, its kind flag is \<open>kind\<close> and its
  logical ID, as a property key, is \<open>key\<close>.
\<close>

definition catalog_bucket :: "RoomKind \<Rightarrow> conference \<Rightarrow> (string \<times> room_id) list" where
  "catalog_bucket kind c =
     (case kind of
        Conference \<Rightarrow> (case dbRoom c of None \<Rightarrow> [] | Some r \<Rightarrow> [(conf_id c, r)])
      | Auditorium \<Rightarrow> auditoriums c
      | AuditoriumBackstage \<Rightarrow> auditoriumBackstages c
      | Talk \<Rightarrow> talks c
      | SpecialInterest \<Rightarrow> interestRooms c)"

definition logical_id :: "RoomKind \<Rightarrow> create_content \<Rightarrow> string option" where
  "logical_id kind ce =
     (case kind of
        Conference \<Rightarrow> rsc_conference_id ce
      | Auditorium \<Rightarrow> rsc_auditorium_id ce
      | AuditoriumBackstage \<Rightarrow> rsc_auditorium_id ce
      | Talk \<Rightarrow> rsc_talk_id ce
      | SpecialInterest \<Rightarrow> rsc_special_interest_id ce)"

definition room_matches :: "world \<Rightarrow> string \<Rightarrow> room_id \<Rightarrow> bool" where
  "room_matches w confId r =
     (case read_create w r of
        Inr (CCreate ce) \<Rightarrow> rsc_conference_id ce = Some confId
      | _ \<Rightarrow> False)"

definition room_claims :: "world \<Rightarrow> string \<Rightarrow> room_id \<Rightarrow> RoomKind \<Rightarrow> string \<Rightarrow> bool" where
  "room_claims w confId r kind key =
     (case read_create w r of
        Inr (CCreate ce) \<Rightarrow>
          rsc_conference_id ce = Some confId \<and> rsc_room_kind_flag ce = Some kind
          \<and> js_key (logical_id kind ce) = key
      | _ \<Rightarrow> False)"



text \<open>No two rooms of the list claim the same key of the same bucket.\<close>

definition claims_unique :: "world \<Rightarrow> string \<Rightarrow> room_id list \<Rightarrow> bool" where
  "claims_unique w confId rs =
     (\<forall>r1 \<in> set rs. \<forall>r2 \<in> set rs. \<forall>kind key.
        room_claims w confId r1 kind key \<and> room_claims w confId r2 kind key \<longrightarrow> r1 = r2)"


section \<open>Invite redemption: the \<open>room.event\<close> handler of the constructor\<close>

definition storedAuditoriums :: "conference \<Rightarrow> room_id list" where
  "storedAuditoriums c = map snd (auditoriums c)"

definition storedAuditoriumBackstages :: "conference \<Rightarrow> room_id list" where
  "storedAuditoriumBackstages c = map snd (auditoriumBackstages c)"

definition storedTalks :: "conference \<Rightarrow> room_id list" where
  "storedTalks c = map snd (talks c)"

definition getPerson :: "conference \<Rightarrow> string \<Rightarrow> IStoredPerson option" where
  "getPerson c personId = map_of (people c) personId"

text \<open>Modelled from the spec: \<open>makeStoredPerson\<close> of \<open>models/room_state\<close> is not among the
  sources. The spec keeps one stored-person record per person, keyed by the person ID,
  that carries the correlated platform identity; \<open>resolvePeople\<close> reads that identity
  back from the field \<open>userId\<close> and \<open>construct\<close> keys the record by \<open>pentaId\<close>.\<close>

definition makeStoredPerson :: "string \<Rightarrow> IDbPerson \<Rightarrow> ev_type \<times> string \<times> IStoredPerson" where
  "makeStoredPerson confId p =
     (RS_STORED_PERSON, person_id p, \<lparr>pentaId = Some (person_id p), userId = matrix_id p\<rparr>)"

text \<open>\<open>this.dbRoom.roomId\<close> throws a TypeError when there is no root room.\<close>

definition createUpdatePerson ::
  "world \<Rightarrow> IDbPerson \<Rightarrow> conference \<Rightarrow> error option \<times> conference \<times> effect list" where
  "createUpdatePerson w p c =
     (case makeStoredPerson (conf_id c) p of
        (ty, key, storedContent) \<Rightarrow>
          (case dbRoom c of
             None \<Rightarrow> (Some (TypeError ''dbRoom is undefined''), c, [])
           | Some db \<Rightarrow>
               (case sendStateEvent w db ty key (CStoredPerson storedContent) of
                  Some e \<Rightarrow> (Some e, c, [])
                | None \<Rightarrow>
                    (None,
                     c\<lparr>people := AList.update (js_key (pentaId storedContent)) storedContent (people c)\<rparr>,
                     [SentStateEvent db ty key (CStoredPerson storedContent)]))))"

text \<open>The loop \<open>for (const person of people)\<close>: clone, stamp \<open>matrix_id\<close>, store.\<close>

fun stamp_people ::
  "world \<Rightarrow> user_id \<Rightarrow> IDbPerson list \<Rightarrow> conference \<Rightarrow> error option \<times> conference \<times> effect list" where
  "stamp_people w stateKey [] c = (None, c, [])"
| "stamp_people w stateKey (p # ps) c =
     (let clonedPerson = p\<lparr>matrix_id := Some stateKey\<rparr> in
      case createUpdatePerson w clonedPerson c of
        (Some e, c', eff) \<Rightarrow> (Some e, c', eff)
      | (None, c', eff) \<Rightarrow>
          (case stamp_people w stateKey ps c' of
             (r, c'', eff') \<Rightarrow> (r, c'', eff @ eff')))"

definition resolvePeople :: "conference \<Rightarrow> IDbPerson list \<Rightarrow> IDbPerson list" where
  "resolvePeople c ps =
     map (\<lambda>p. if truthy (matrix_id p) then p
              else (case getPerson c (person_id p) of
                      None \<Rightarrow> p
                    | Some storedPerson \<Rightarrow>
                        if truthy (userId storedPerson) then p\<lparr>matrix_id := userId storedPerson\<rparr>
                        else p)) ps"

definition getPeopleForAuditorium :: "world \<Rightarrow> conference \<Rightarrow> room_id \<Rightarrow> error + IDbPerson list" where
  "getPeopleForAuditorium w c auditorium =
     (case getId w auditorium of
        Inl e \<Rightarrow> Inl e
      | Inr audId \<Rightarrow>
          (case findAllPeopleForAuditorium w audId of
             Inl e \<Rightarrow> Inl e
           | Inr ps \<Rightarrow> Inr (resolvePeople c ps)))"

definition getPeopleForTalk :: "world \<Rightarrow> conference \<Rightarrow> room_id \<Rightarrow> error + IDbPerson list" where
  "getPeopleForTalk w c talk =
     (case getId w talk of
        Inl e \<Rightarrow> Inl e
      | Inr talkId \<Rightarrow>
          (case findAllPeopleForTalk w talkId of
             Inl e \<Rightarrow> Inl e
           | Inr ps \<Rightarrow> Inr (resolvePeople c ps)))"

definition getModeratorsForAuditorium ::
  "world \<Rightarrow> conference \<Rightarrow> room_id \<Rightarrow> error + IDbPerson list" where
  "getModeratorsForAuditorium w c auditorium =
     (case getPeopleForAuditorium w c auditorium of
        Inl e \<Rightarrow> Inl e
      | Inr ps \<Rightarrow> Inr (filter (\<lambda>p. event_role p \<in> {Coordinator}) ps))"

definition getModeratorsForTalk :: "world \<Rightarrow> conference \<Rightarrow> room_id \<Rightarrow> error + IDbPerson list" where
  "getModeratorsForTalk w c talk =
     (case getPeopleForTalk w c talk of
        Inl e \<Rightarrow> Inl e
      | Inr ps \<Rightarrow> Inr (filter (\<lambda>p. event_role p \<in> {Coordinator, Speaker, Host}) ps))"

text \<open>Modelled from the spec: \<open>PermissionsCommand.ensureModerator\<close> is not among the
  sources. It is the spec's Permission Reconciler, which the sources implement as
  \<open>Conference.ensurePermissionsFor\<close>.\<close>

definition ensureModerator ::
  "world \<Rightarrow> room_id \<Rightarrow> ResolvedPersonIdentifier list \<Rightarrow> error option \<times> effect list" where
  "ensureModerator w roomId resolved = ensurePermissionsFor w resolved roomId"

text \<open>\<open>const resolved = await resolveIdentifiers(mods); await
  PermissionsCommand.ensureModerator(this.client, roomId, resolved)\<close>, the same three
  lines in each branch.\<close>

definition moderate_room ::
  "world \<Rightarrow> room_id \<Rightarrow> error + IDbPerson list \<Rightarrow> error option \<times> effect list" where
  "moderate_room w roomId mods =
     (case mods of
        Inl e \<Rightarrow> (Some e, [])
      | Inr ms \<Rightarrow>
          (case resolveIdentifiers w ms of
             Inl e \<Rightarrow> (Some e, [])
           | Inr resolved \<Rightarrow> ensureModerator w roomId resolved))"

text \<open>"Update permissions while we're here (if we can identify the room kind)".\<close>

definition update_permissions :: "world \<Rightarrow> room_id \<Rightarrow> conference \<Rightarrow> error option \<times> effect list" where
  "update_permissions w roomId c =
     (case find (\<lambda>a. a = roomId) (storedAuditoriums c) of
        Some aud \<Rightarrow> moderate_room w roomId (getModeratorsForAuditorium w c aud)
      | None \<Rightarrow>
          (case find (\<lambda>a. a = roomId) (storedAuditoriumBackstages c) of
             Some audBackstage \<Rightarrow>
               moderate_room w roomId (getModeratorsForAuditorium w c audBackstage)
           | None \<Rightarrow>
               (case find (\<lambda>a. a = roomId) (storedTalks c) of
                  Some talk \<Rightarrow> moderate_room w roomId (getModeratorsForTalk w c talk)
                | None \<Rightarrow> (None, []))))"

text \<open>The handler ends in one of three ways: it associated the users and went through
  the permission update (\<open>Applied\<close>), it fell out of one of its \<open>if\<close>s
  (\<open>Rejected\<close>), or an awaited call rejected (\<open>Threw\<close>).\<close>

datatype outcome = Applied | Rejected | Threw error

definition room_event_handler ::
  "world \<Rightarrow> room_id \<Rightarrow> room_event \<Rightarrow> conference \<Rightarrow> outcome \<times> conference \<times> effect list" where
  "room_event_handler w roomId event c =
     (if re_type event = MRoomMember then
        (case re_third_party_invite event of
           None \<Rightarrow> (Rejected, c, [])
         | Some emailInviteToken \<Rightarrow>
             (case getRoomStateEvent w roomId MRoomThirdPartyInvite emailInviteToken of
                Inl e \<Rightarrow> (Threw e, c, [])
              | Inr emailInvite \<Rightarrow>
                  (case content_person_id (Some emailInvite) of
                     None \<Rightarrow> (Rejected, c, [])
                   | Some personId \<Rightarrow>
                       if personId = [] then (Rejected, c, [])
                       else
                         (case getRoomState w roomId of
                            Inl e \<Rightarrow> (Threw e, c, [])
                          | Inr state \<Rightarrow>
                              (let verifiableCreateEvent = find (\<lambda>e. ev_type e = MRoomCreate) state;
                                   verifiable3pidInvite =
                                     find (\<lambda>e. ev_type e = MRoomThirdPartyInvite
                                                \<and> Some (state_key e) = emailInviteToken) state
                               in
                               if map_option sender verifiableCreateEvent = Some (getUserId w) then
                                 if map_option sender verifiable3pidInvite = Some (getUserId w) then
                                   (case findPeopleWithId w personId of
                                      Inl e \<Rightarrow> (Threw e, c, [])
                                    | Inr ps \<Rightarrow>
                                        if ps \<noteq> [] then
                                          (case stamp_people w (re_state_key event) ps c of
                                             (Some e, c', eff) \<Rightarrow> (Threw e, c', eff)
                                           | (None, c', eff) \<Rightarrow>
                                               (case update_permissions w roomId c' of
                                                  (Some e, eff') \<Rightarrow> (Threw e, c', eff @ eff')
                                                | (None, eff') \<Rightarrow> (Applied, c', eff @ eff')))
                                        else (Rejected, c, []))
                                 else (Rejected, c, [])
                               else (Rejected, c, []))))))
      else (Rejected, c, []))"

text \<open>The stored-person record of the person \<open>personId\<close> stamped with the platform
  identity \<open>u\<close>.\<close>

definition stamped :: "string \<Rightarrow> user_id \<Rightarrow> IStoredPerson" where
  "stamped personId u = \<lparr>pentaId = Some personId, userId = Some u\<rparr>"

text \<open>
  The words of the spec, to state when a redemption may be applied: the event is a
  membership event that carries a third-party-invite token; the third-party-invite
  record of the room under that token exists and carries a person ID; the
  \<open>m.room.create\<close> event of the room state was sent by the agent; the
  third-party-invite event of the room state under that token was sent by the agent;
  and the backend finds at least one person with that person ID.
\<close>

definition redemption_verified :: "world \<Rightarrow> room_id \<Rightarrow> room_event \<Rightarrow> bool" where
  "redemption_verified w roomId event =
     (\<exists>token personId state createEv inviteEv ps.
        re_type event = MRoomMember
      \<and> re_third_party_invite event = Some (Some token)
      \<and> getRoomStateEvent w roomId MRoomThirdPartyInvite (Some token)
           = Inr (CThirdPartyInvite (Some personId))
      \<and> personId \<noteq> []
      \<and> getRoomState w roomId = Inr state
      \<and> find (\<lambda>e. ev_type e = MRoomCreate) state = Some createEv
      \<and> sender createEv = getUserId w
      \<and> find (\<lambda>e. ev_type e = MRoomThirdPartyInvite \<and> state_key e = token) state = Some inviteEv
      \<and> sender inviteEv = getUserId w
      \<and> findPeopleWithId w personId = Inr ps
      \<and> ps \<noteq> [])"

text \<open>
  A successful correlation: the redemption is verified, as above, and the loop over the
  people that the backend found has stored every one of them, which leaves the catalog
  \<open>c'\<close> and the effects \<open>eff\<close>.
\<close>

definition correlated ::
  "world \<Rightarrow> room_id \<Rightarrow> room_event \<Rightarrow> conference \<Rightarrow> conference \<Rightarrow> effect list \<Rightarrow> bool" where
  "correlated w roomId event c c' eff =
     (\<exists>token personId state createEv inviteEv ps.
        re_type event = MRoomMember
      \<and> re_third_party_invite event = Some (Some token)
      \<and> getRoomStateEvent w roomId MRoomThirdPartyInvite (Some token)
           = Inr (CThirdPartyInvite (Some personId))
      \<and> personId \<noteq> []
      \<and> getRoomState w roomId = Inr state
      \<and> find (\<lambda>e. ev_type e = MRoomCreate) state = Some createEv
      \<and> sender createEv = getUserId w
      \<and> find (\<lambda>e. ev_type e = MRoomThirdPartyInvite \<and> state_key e = token) state = Some inviteEv
      \<and> sender inviteEv = getUserId w
      \<and> findPeopleWithId w personId = Inr ps
      \<and> ps \<noteq> []
      \<and> stamp_people w (re_state_key event) ps c = (None, c', eff))"

section \<open>An example conference\<close>

text \<open>
  A small world on which the properties below are run. The agent is \<open>@bot:x\<close> and has
  joined five rooms: the root room \<open>!db\<close> of conference \<open>X\<close>; the auditorium \<open>A1\<close>
  of \<open>X\<close> in \<open>!a1\<close>, its backstage in \<open>!b1\<close> and the talk \<open>T1\<close> in \<open>!t1\<close>; and a
  talk room of another conference \<open>Y\<close>. Room \<open>!a1\<close> was created by the agent, has a
  pending third-party invite with token \<open>tok\<close> for person \<open>p1\<close> that the agent sent,
  one joined member \<open>@carol:x\<close>, and power levels for \<open>@alice:x\<close> (0) and
  \<open>@carol:x\<close> (100); the other rooms have an empty power-level map. The backend
  knows person \<open>p1\<close>, a coordinator with no platform identity yet, and person
  \<open>p5\<close>, a speaker known as \<open>@erin:x\<close>; both belong to every auditorium and talk.
\<close>

definition example_create :: "string \<Rightarrow> RoomKind \<Rightarrow> string option \<Rightarrow> string option \<Rightarrow> content" where
  "example_create confId kind audId talkId =
     CCreate \<lparr>rsc_conference_id = Some confId, rsc_room_kind_flag = Some kind,
              rsc_auditorium_id = audId, rsc_talk_id = talkId, rsc_special_interest_id = None\<rparr>"

definition example_person :: IDbPerson where
  "example_person = \<lparr>person_id = ''p1'', matrix_id = None, event_role = Coordinator\<rparr>"

definition example_speaker :: IDbPerson where
  "example_speaker = \<lparr>person_id = ''p5'', matrix_id = Some ''@erin:x'', event_role = Speaker\<rparr>"

definition example_room_state :: "state_event list" where
  "example_room_state =
     [\<lparr>ev_type = MRoomCreate, state_key = [], sender = ''@bot:x'', ev_content = Some COther\<rparr>,
      \<lparr>ev_type = MRoomThirdPartyInvite, state_key = ''tok'', sender = ''@bot:x'',
       ev_content = Some (CThirdPartyInvite (Some ''p1''))\<rparr>,
      \<lparr>ev_type = MRoomMember, state_key = ''@carol:x'', sender = ''@carol:x'',
       ev_content = Some (CMember Join)\<rparr>]"

definition example_world :: world where
  "example_world =
     \<lparr>getUserId = ''@bot:x'',
      moderatorUserId = ''@mod:x'',
      existingInterestRooms = [],
      getJoinedRooms = Inr [''!db'', ''!a1'', ''!b1'', ''!t1'', ''!other''],
      getRoomStateEvent = (\<lambda>r t k.
         if t = MRoomCreate \<and> r = ''!db'' then Inr (example_create ''X'' Conference None None)
         else if t = MRoomCreate \<and> r = ''!a1''
           then Inr (example_create ''X'' Auditorium (Some ''A1'') None)
         else if t = MRoomCreate \<and> r = ''!b1''
           then Inr (example_create ''X'' AuditoriumBackstage (Some ''A1'') None)
         else if t = MRoomCreate \<and> r = ''!t1''
           then Inr (example_create ''X'' Talk (Some ''A1'') (Some ''T1''))
         else if t = MRoomCreate \<and> r = ''!other''
           then Inr (example_create ''Y'' Talk None (Some ''T1''))
         else if t = MRoomPowerLevels \<and> r = ''!a1''
           then Inr (CPowerLevels (Some [(''@alice:x'', 0), (''@carol:x'', 100)]))
         else if t = MRoomPowerLevels then Inr (CPowerLevels (Some []))
         else if t = MRoomThirdPartyInvite \<and> r = ''!a1'' \<and> k = Some ''tok''
           then Inr (CThirdPartyInvite (Some ''p1''))
         else Inl (RequestError ''M_NOT_FOUND'')),
      getRoomState = (\<lambda>r.
         if r = ''!a1'' then Inr example_room_state
         else if r = ''!db'' then Inr []
         else Inl (RequestError ''M_FORBIDDEN'')),
      resolveRoom = (\<lambda>a. Inl (RequestError ''M_NOT_FOUND'')),
      getSpace = (\<lambda>r. Inl (RequestError ''M_NOT_FOUND'')),
      sendStateEvent = (\<lambda>r t k c. None),
      findPeopleWithId = (\<lambda>p. if p = ''p1'' then Inr [example_person] else Inr []),
      findAllPeopleForAuditorium = (\<lambda>a. Inr [example_person, example_speaker]),
      findAllPeopleForTalk = (\<lambda>t. Inr [example_person, example_speaker]),
      getId = (\<lambda>r. if r = ''!a1'' \<or> r = ''!b1'' then Inr ''A1''
                    else if r = ''!t1'' then Inr ''T1''
                    else Inl (RequestError ''M_NOT_FOUND'')),
      resolveIdentifiers = (\<lambda>ps. Inr (map (\<lambda>p. \<lparr>mxid = matrix_id p, person = p\<rparr>) ps)),
      invitePersonToRoom = (\<lambda>t r. None)\<rparr>"

text \<open>The catalog of conference \<open>X\<close> in this world, and the membership event by
  which the user \<open>u\<close> redeems the invite with token \<open>tok\<close>.\<close>

definition example_conference :: conference where
  "example_conference =
     \<lparr>conf_id = ''X'', dbRoom = Some ''!db'', subspaces = [],
      auditoriums = [(''A1'', ''!a1'')], auditoriumBackstages = [(''A1'', ''!b1'')],
      talks = [(''T1'', ''!t1'')], interestRooms = [], people = []\<rparr>"

definition example_redemption :: "user_id \<Rightarrow> room_event" where
  "example_redemption u =
     \<lparr>re_type = MRoomMember, re_state_key = u, re_third_party_invite = Some (Some ''tok'')\<rparr>"

text \<open>The catalog after \<open>@alice:x\<close> has redeemed the invite.\<close>

definition example_conference_alice :: conference where
  "example_conference_alice = example_conference\<lparr>people := [(''p1'', stamped ''p1'' ''@alice:x'')]\<rparr>"

text \<open>A catalog in which room \<open>!a1\<close> is found both among the auditoriums and among
  the talks.\<close>

definition example_conference_twice :: conference where
  "example_conference_twice = example_conference\<lparr>talks := [(''T1'', ''!a1'')]\<rparr>"

text \<open>The same world when the rooms cannot be listed; when the agent has joined only
  \<open>!a1\<close> and the room of the other conference; and when it has joined 22 rooms, the
  first of which, \<open>!gone\<close>, has a creation record that cannot be read, and the last
  two of which, in the second batch, are \<open>!a1\<close> and \<open>!db\<close>.\<close>

definition example_world_offline :: world where
  "example_world_offline = example_world\<lparr>getJoinedRooms := Inl (RequestError ''M_UNKNOWN'')\<rparr>"

definition example_world_two :: world where
  "example_world_two = example_world\<lparr>getJoinedRooms := Inr [''!a1'', ''!other'']\<rparr>"



text \<open>Catalogs in which room \<open>!a1\<close> is found only among the backstages, only among
  the talks, and nowhere.\<close>

definition example_conference_backstage :: conference where
  "example_conference_backstage =
     example_conference\<lparr>auditoriums := [], auditoriumBackstages := [(''A1'', ''!a1'')]\<rparr>"

definition example_conference_talk :: conference where
  "example_conference_talk = example_conference\<lparr>auditoriums := [], talks := [(''T1'', ''!a1'')]\<rparr>"

definition example_conference_none :: conference where
  "example_conference_none = example_conference\<lparr>auditoriums := []\<rparr>"





definition example_target :: "string \<Rightarrow> string \<Rightarrow> ResolvedPersonIdentifier" where
  "example_target pid u =
     \<lparr>mxid = Some u, person = \<lparr>person_id = pid, matrix_id = Some u, event_role = Coordinator\<rparr>\<rparr>"

section \<open>Properties of the permission reconciler\<close>

lemma map_of_grant_moderators:
  "map_of (grant_moderators us users) u =
     (if u \<in> set us \<and> \<not> truthy_level (map_of users u) then Some 50 else map_of users u)"
  by (induction us arbitrary: users) (auto simp: update_conv truthy_level_def)

lemma set_target_mxids:
  "u \<in> set (target_mxids ps) \<longleftrightarrow> u \<noteq> [] \<and> (\<exists>t \<in> set ps. mxid t = Some u)"
  by (induction ps) (auto simp: target_mxids_def truthy_def split: option.splits)

lemma map_of_merge_users:
  "map_of (merge_users w mxids users) u =
     (if u = getUserId w \<or> u = moderatorUserId w then Some 100
      else if u \<in> set mxids \<and> \<not> truthy_level (map_of users u) then Some 50
      else map_of users u)"
  by (auto simp: merge_users_def map_of_grant_moderators update_conv truthy_level_def)

lemma falsy_level: "(\<not> truthy_level x) = (x = None \<or> x = Some 0)"
  by (auto simp: truthy_level_def split: option.splits)

lemma ensurePermissionsFor_written:
  assumes "getRoomStateEvent w roomId MRoomPowerLevels (Some []) = Inr (CPowerLevels (Some users))"
    and "sendStateEvent w roomId MRoomPowerLevels []
           (CPowerLevels (Some (merge_users w (target_mxids ps) users))) = None"
  shows "ensurePermissionsFor w ps roomId =
           (None, [SentStateEvent roomId MRoomPowerLevels []
                     (CPowerLevels (Some (merge_users w (target_mxids ps) users)))])"
  using assms by (simp add: ensurePermissionsFor_def Let_def)

lemmas example_permission_simps =
  ensurePermissionsFor_def example_world_def example_target_def target_mxids_def
  truthy_def merge_users_def truthy_level_def

text \<open>
  C5, as amended. When the power levels of the room are read with a \<open>users\<close> map and the
  write is accepted, \<open>ensurePermissionsFor\<close> writes back one power-levels event whose
  \<open>users\<close> map gives 100 to the agent and to the configured moderator, gives 50 to
  every target identity (other than these two) that is not in the map or is in it with
  level 0, and gives every other identity what the map gave it before.
\<close>

theorem ensurePermissionsFor_merge:
  assumes "getRoomStateEvent w roomId MRoomPowerLevels (Some []) = Inr (CPowerLevels (Some users))"
    and "sendStateEvent w roomId MRoomPowerLevels []
           (CPowerLevels (Some (merge_users w (target_mxids ps) users))) = None"
  shows "ensurePermissionsFor w ps roomId =
           (None, [SentStateEvent roomId MRoomPowerLevels []
                     (CPowerLevels (Some (merge_users w (target_mxids ps) users)))])
       \<and> map_of (merge_users w (target_mxids ps) users) (getUserId w) = Some 100
       \<and> map_of (merge_users w (target_mxids ps) users) (moderatorUserId w) = Some 100
       \<and> (\<forall>u. u \<noteq> getUserId w \<and> u \<noteq> moderatorUserId w \<longrightarrow>
             map_of (merge_users w (target_mxids ps) users) u =
               (if (u \<noteq> [] \<and> (\<exists>t \<in> set ps. mxid t = Some u))
                   \<and> (map_of users u = None \<or> map_of users u = Some 0)
                then Some 50 else map_of users u))"
  using ensurePermissionsFor_written [OF assms]
  by (simp add: map_of_merge_users set_target_mxids falsy_level)

text \<open>Witness: reconciling \<open>!a1\<close> with the new target \<open>@bob:x\<close> adds him at 50 and
  leaves \<open>@carol:x\<close> at 100.\<close>

theorem ensurePermissionsFor_merge_witness:
  "getRoomStateEvent example_world ''!a1'' MRoomPowerLevels (Some []) =
     Inr (CPowerLevels (Some [(''@alice:x'', 0), (''@carol:x'', 100)]))
   \<and> ensurePermissionsFor example_world [example_target ''p2'' ''@bob:x''] ''!a1'' =
       (None, [SentStateEvent ''!a1'' MRoomPowerLevels []
                 (CPowerLevels (Some [(''@alice:x'', 0), (''@carol:x'', 100),
                                      (''@bot:x'', 100), (''@mod:x'', 100), (''@bob:x'', 50)]))])"
  using ensurePermissionsFor_merge [of example_world "''!a1''"
          "[(''@alice:x'', 0), (''@carol:x'', 100)]" "[example_target ''p2'' ''@bob:x'']"]
  by (simp add: example_permission_simps)

text \<open>Counterexample to C5 as stated: \<open>@alice:x\<close> is in the map of \<open>!a1\<close> with level 0
  and is a target; the map written back gives her 50.\<close>

theorem ensurePermissionsFor_merge_counterexample:
  "map_of [(''@alice:x'', 0), (''@carol:x'', 100 :: int)] ''@alice:x'' = Some 0
   \<and> getRoomStateEvent example_world ''!a1'' MRoomPowerLevels (Some []) =
       Inr (CPowerLevels (Some [(''@alice:x'', 0), (''@carol:x'', 100)]))
   \<and> ensurePermissionsFor example_world [example_target ''p1'' ''@alice:x''] ''!a1'' =
       (None, [SentStateEvent ''!a1'' MRoomPowerLevels []
                 (CPowerLevels (Some [(''@alice:x'', 50), (''@carol:x'', 100),
                                      (''@bot:x'', 100), (''@mod:x'', 100)]))])"
  by (simp add: example_permission_simps)

text \<open>
  C10. The loop tests the stored level for truthiness: a target whose entry is 0 when
  the loop reaches it gets 50. For the whole of \<open>ensurePermissionsFor\<close>: a target other
  than the agent and the configured moderator (whose entries are set to 100 before the
  loop) that is in the map with level 0 is in the map written back with level 50.
\<close>

theorem ensurePermissionsFor_zero_level_overwritten:
  "(u \<in> set mxids \<and> map_of users u = Some 0 \<longrightarrow>
      map_of (grant_moderators mxids users) u = Some 50)
   \<and> (getRoomStateEvent w roomId MRoomPowerLevels (Some []) = Inr (CPowerLevels (Some users0))
      \<and> sendStateEvent w roomId MRoomPowerLevels []
           (CPowerLevels (Some (merge_users w (target_mxids ps) users0))) = None
      \<and> t \<in> set ps \<and> mxid t = Some v \<and> v \<noteq> [] \<and> map_of users0 v = Some 0
      \<and> v \<noteq> getUserId w \<and> v \<noteq> moderatorUserId w \<longrightarrow>
      ensurePermissionsFor w ps roomId =
        (None, [SentStateEvent roomId MRoomPowerLevels []
                  (CPowerLevels (Some (merge_users w (target_mxids ps) users0)))])
      \<and> map_of (merge_users w (target_mxids ps) users0) v = Some 50)"
  by (auto simp: map_of_grant_moderators map_of_merge_users set_target_mxids falsy_level
        ensurePermissionsFor_written)

text \<open>Witness: \<open>@alice:x\<close>, at level 0 in \<open>!a1\<close>, is a target.\<close>

theorem ensurePermissionsFor_zero_level_overwritten_witness:
  "map_of (grant_moderators [''@alice:x''] [(''@alice:x'', 0)]) ''@alice:x'' = Some 50
   \<and> map_of (merge_users example_world (target_mxids [example_target ''p1'' ''@alice:x''])
               [(''@alice:x'', 0), (''@carol:x'', 100)]) ''@alice:x'' = Some 50"
  using ensurePermissionsFor_zero_level_overwritten
          [of "''@alice:x''" "[''@alice:x'']" "[(''@alice:x'', 0)]" example_world "''!a1''"
              "[(''@alice:x'', 0), (''@carol:x'', 100)]" "[example_target ''p1'' ''@alice:x'']"
              "example_target ''p1'' ''@alice:x''" "''@alice:x''"]
  by (simp add: example_permission_simps)

section \<open>Properties of the membership reconciler\<close>










section \<open>Properties of the catalog builder\<close>

subsection \<open>The catalog after a rebuild does not depend on the catalog before it\<close>

lemma reset_cong: "conf_id c = conf_id c' \<Longrightarrow> reset c = reset c'"
  by (cases c, cases c') (simp add: reset_def)

lemma conf_id_reset [simp]: "conf_id (reset c) = conf_id c"
  by (simp add: reset_def)

lemma conf_id_classifyRoom [simp]: "conf_id (classifyRoom r ev c) = conf_id c"
  by (auto simp: classifyRoom_def split: content.splits option.splits RoomKind.splits)

lemma conf_id_classify_step [simp]: "conf_id (classify_step w r c) = conf_id c"
  by (simp add: classify_step_def split: sum.splits)

lemma conf_id_fold_classify [simp]: "conf_id (fold (classify_step w) rs c) = conf_id c"
  by (induction rs arbitrary: c) auto

text \<open>A batch leaves the catalog that its tasks build one after the other, and it is
  rejected exactly when one of its reads is.\<close>

lemma snd_run_batch: "snd (run_batch w rs c) = fold (classify_step w) rs c"
  by (induction rs arbitrary: c) (auto simp: classify_step_def read_create_def split: sum.splits)

lemma fst_run_batch: "fst (run_batch w rs c) = None \<longleftrightarrow> (\<forall>r \<in> set rs. \<not> isl (read_create w r))"
  by (induction rs arbitrary: c) (auto simp: read_create_def split: sum.splits)

lemma slice_drop: "slice rs i (i + n) @ drop (i + n) rs = drop i rs"
  by (simp add: slice_def add.commute [of i n] drop_drop [symmetric] del: drop_drop)

lemma construct_rooms_done: "\<not> i < length rs \<Longrightarrow> construct_rooms w rs i c = (None, c)"
  by (subst construct_rooms.simps) simp

lemma construct_rooms_next:
  "i < length rs \<Longrightarrow> fst (run_batch w (slice rs i (i + batchSize)) c) = None \<Longrightarrow>
     construct_rooms w rs i c =
       construct_rooms w rs (i + batchSize) (snd (run_batch w (slice rs i (i + batchSize)) c))"
  by (subst construct_rooms.simps) (simp add: Let_def)

lemma construct_rooms_stop:
  "i < length rs \<Longrightarrow> fst (run_batch w (slice rs i (i + batchSize)) c) = Some e \<Longrightarrow>
     construct_rooms w rs i c = (Some e, snd (run_batch w (slice rs i (i + batchSize)) c))"
  by (subst construct_rooms.simps) (simp add: Let_def)

lemma conf_id_construct_rooms [simp]: "conf_id (snd (construct_rooms w rs i c)) = conf_id c"
proof (induction w rs i c rule: construct_rooms.induct)
  case (1 w roomIds i c)
  show ?case
  proof (cases "i < length roomIds")
    case False
    then show ?thesis by (simp add: construct_rooms_done)
  next
    case True
    show ?thesis
    proof (cases "fst (run_batch w (slice roomIds i (i + batchSize)) c)")
      case None
      with "1.IH" [OF True refl None] True show ?thesis
        by (simp add: construct_rooms_next snd_run_batch)
    next
      case (Some e)
      with True show ?thesis by (simp add: construct_rooms_stop snd_run_batch)
    qed
  qed
qed

lemma conf_id_resolve_existing [simp]: "conf_id (resolve_existing w xs c) = conf_id c"
  by (induction w xs c rule: resolve_existing.induct) (auto split: sum.splits)

lemma conf_id_load_people [simp]: "conf_id (load_people st c) = conf_id c"
proof -
  have "conf_id (fold (\<lambda>p c. c\<lparr>people := AList.update (js_key (pentaId p)) p (people c)\<rparr>) ps c)
          = conf_id c" for ps
    by (induction ps arbitrary: c) auto
  then show ?thesis by (simp add: load_people_def)
qed

lemma conf_id_load_subspaces [simp]: "conf_id (snd (load_subspaces w evs c)) = conf_id c"
  by (induction evs arbitrary: c) (auto split: sum.splits)

lemma conf_id_hydrate:
  "conf_id (snd (case dbRoom c2 of
                   None \<Rightarrow> (None, c2)
                 | Some db \<Rightarrow>
                     (case getRoomState w db of
                        Inl e \<Rightarrow> (Some e, c2)
                      | Inr roomState \<Rightarrow>
                          (let dbState = filter (\<lambda>s. ev_content s \<noteq> None) roomState;
                               c3 = load_people dbState c2
                           in load_subspaces w
                                (filter (\<lambda>s. ev_type s = RS_STORED_SUBSPACE) dbState) c3)))) =
     conf_id c2"
  by (cases "dbRoom c2"; cases "getRoomState w (the (dbRoom c2))") (simp_all add: Let_def)

lemma conf_id_construct: "conf_id (snd (construct w c)) = conf_id c"
proof (cases "getJoinedRooms w")
  case (Inl e)
  then show ?thesis by (simp add: construct_def)
next
  case (Inr roomIds)
  show ?thesis
  proof (cases "fst (construct_rooms w roomIds 0 (reset c))")
    case (Some e)
    with Inr show ?thesis by (simp add: construct_def Let_def)
  next
    case None
    have "conf_id (resolve_existing w (existingInterestRooms w)
                     (snd (construct_rooms w roomIds 0 (reset c)))) = conf_id c"
      by simp
    with Inr None show ?thesis
      by (simp add: construct_def Let_def conf_id_hydrate del: conf_id_resolve_existing)
  qed
qed

lemma construct_cong: "conf_id c = conf_id c' \<Longrightarrow> construct w c = construct w c'"
  by (simp add: construct_def reset_cong [of c c'])

text \<open>The example: the rebuild of conference \<open>X\<close>, from any catalog of \<open>X\<close>.\<close>

lemma example_construct: "construct example_world example_conference = (None, example_conference)"
  by code_simp

lemma example_construct_offline:
  "construct example_world_offline example_conference =
     (Some (RequestError ''M_UNKNOWN''), reset example_conference)"
  by code_simp


text \<open>The scenario of the spec: of two joined rooms, one is the auditorium \<open>A1\<close> of
  conference \<open>X\<close> and the other a talk of conference \<open>Y\<close>; the rebuild for \<open>X\<close> yields
  one auditorium and no talk.\<close>

lemma example_construct_two:
  "construct example_world_two example_conference =
     (None, (reset example_conference)\<lparr>auditoriums := [(''A1'', ''!a1'')]\<rparr>)"
  by code_simp

text \<open>
  C3, as amended. \<open>construct\<close> first resets the catalog: the result of a rebuild,
  completed or not, is the same from any two catalogs of the same conference, so
  nothing of the previous contents is retained; when the rooms cannot be listed the
  rebuild fails and leaves the empty catalog.
\<close>

theorem construct_discards_previous:
  "(conf_id c = conf_id c' \<longrightarrow> construct w c = construct w c')
   \<and> (getJoinedRooms w = Inl e \<longrightarrow> construct w c = (Some e, reset c))"
proof (intro conjI impI)
  assume "conf_id c = conf_id c'"
  then show "construct w c = construct w c'" by (rule construct_cong)
next
  assume "getJoinedRooms w = Inl e"
  then show "construct w c = (Some e, reset c)" by (simp add: construct_def)
qed

text \<open>Witness: the rebuild of the example from two catalogs of \<open>X\<close>, and the rebuild
  when the rooms cannot be listed.\<close>

theorem construct_discards_previous_witness:
  "conf_id example_conference_alice = conf_id example_conference
   \<and> construct example_world example_conference_alice = construct example_world example_conference
   \<and> getJoinedRooms example_world_offline = Inl (RequestError ''M_UNKNOWN'')
   \<and> construct example_world_offline example_conference =
       (Some (RequestError ''M_UNKNOWN''), reset example_conference)"
  using construct_discards_previous [of example_conference_alice example_conference example_world]
        construct_discards_previous [of example_conference example_conference
                                        example_world_offline "RequestError ''M_UNKNOWN''"]
  by (simp add: example_conference_alice_def example_world_offline_def)

text \<open>Counterexample to C3 as stated: the catalog holds the auditorium \<open>A1\<close>, the
  rebuild fails because the rooms cannot be listed, and the catalog is left empty.\<close>

theorem construct_discards_previous_counterexample:
  "auditoriums example_conference = [(''A1'', ''!a1'')]
   \<and> fst (construct example_world_offline example_conference) = Some (RequestError ''M_UNKNOWN'')
   \<and> auditoriums (snd (construct example_world_offline example_conference)) = []"
  by (simp add: example_construct_offline) (simp add: example_conference_def reset_def)

subsection \<open>Rooms of other conferences and rooms that cannot be read\<close>

lemma construct_rooms_ok:
  "\<forall>r \<in> set (drop i rs). \<not> isl (read_create w r) \<Longrightarrow>
     construct_rooms w rs i c = (None, fold (classify_step w) (drop i rs) c)"
proof (induction w rs i c rule: construct_rooms.induct)
  case (1 w roomIds i c)
  show ?case
  proof (cases "i < length roomIds")
    case False
    then show ?thesis by (simp add: construct_rooms_done)
  next
    case True
    let ?b = "slice roomIds i (i + batchSize)"
    have split: "drop i roomIds = ?b @ drop (i + batchSize) roomIds"
      by (simp add: slice_drop)
    from "1.prems" split have okb: "\<forall>r \<in> set ?b. \<not> isl (read_create w r)"
      and okr: "\<forall>r \<in> set (drop (i + batchSize) roomIds). \<not> isl (read_create w r)"
      by (metis Un_iff set_append)+
    from okb have f: "fst (run_batch w ?b c) = None" by (simp add: fst_run_batch)
    from "1.IH" [OF True refl f okr]
    have "construct_rooms w roomIds (i + batchSize) (snd (run_batch w ?b c)) =
            (None, fold (classify_step w) (drop (i + batchSize) roomIds) (snd (run_batch w ?b c)))" .
    then have "construct_rooms w roomIds i c =
            (None, fold (classify_step w) (?b @ drop (i + batchSize) roomIds) c)"
      by (simp add: construct_rooms_next [OF True f] snd_run_batch)
    with split show ?thesis by simp
  qed
qed






subsection \<open>The classifier\<close>

lemma set_update_cases:
  "(a, b) \<in> set (AList.update k v al) \<Longrightarrow> (a, b) = (k, v) \<or> (a, b) \<in> set al"
  by (induction al) (auto split: if_splits)


lemma classifyRoom_bucket:
  assumes "rsc_conference_id ce = Some (conf_id c)" and "rsc_room_kind_flag ce = Some kind"
  shows "map_of (catalog_bucket kind (classifyRoom roomId (CCreate ce) c)) (js_key (logical_id kind ce))
           = Some roomId"
    and "set (catalog_bucket kind (classifyRoom roomId (CCreate ce) c))
           \<subseteq> insert (js_key (logical_id kind ce), roomId) (set (catalog_bucket kind c))"
    and "\<forall>k. k \<noteq> js_key (logical_id kind ce) \<longrightarrow>
           map_of (catalog_bucket kind (classifyRoom roomId (CCreate ce) c)) k
             = map_of (catalog_bucket kind c) k"
    and "\<forall>kind'. kind' \<noteq> kind \<longrightarrow>
           catalog_bucket kind' (classifyRoom roomId (CCreate ce) c) = catalog_bucket kind' c"
proof -
  show "map_of (catalog_bucket kind (classifyRoom roomId (CCreate ce) c)) (js_key (logical_id kind ce))
           = Some roomId"
    using assms
    by (cases kind) (auto simp: classifyRoom_def catalog_bucket_def logical_id_def update_conv js_key_def)
  show "set (catalog_bucket kind (classifyRoom roomId (CCreate ce) c))
           \<subseteq> insert (js_key (logical_id kind ce), roomId) (set (catalog_bucket kind c))"
    using assms
    by (cases kind)
       (auto simp: classifyRoom_def catalog_bucket_def logical_id_def js_key_def
             dest: set_update_cases split: option.splits)
  show "\<forall>k. k \<noteq> js_key (logical_id kind ce) \<longrightarrow>
           map_of (catalog_bucket kind (classifyRoom roomId (CCreate ce) c)) k
             = map_of (catalog_bucket kind c) k"
    using assms
    by (cases kind)
       (auto simp: classifyRoom_def catalog_bucket_def logical_id_def update_conv js_key_def
             split: option.splits)
  show "\<forall>kind'. kind' \<noteq> kind \<longrightarrow>
           catalog_bucket kind' (classifyRoom roomId (CCreate ce) c) = catalog_bucket kind' c"
    using assms
    by (cases kind)
       (auto simp: classifyRoom_def catalog_bucket_def split: RoomKind.splits option.splits)
qed

text \<open>A task either leaves the catalog as it is, or its room claims a key of a bucket
  and is written there, and nowhere else.\<close>

lemma classify_step_cases:
  "classify_step w r c = c
   \<or> (\<exists>kind key. room_claims w (conf_id c) r kind key
        \<and> map_of (catalog_bucket kind (classify_step w r c)) key = Some r
        \<and> set (catalog_bucket kind (classify_step w r c)) \<subseteq> insert (key, r) (set (catalog_bucket kind c))
        \<and> (\<forall>k. k \<noteq> key \<longrightarrow> map_of (catalog_bucket kind (classify_step w r c)) k
                              = map_of (catalog_bucket kind c) k)
        \<and> (\<forall>kind'. kind' \<noteq> kind \<longrightarrow> catalog_bucket kind' (classify_step w r c)
                                      = catalog_bucket kind' c))"
proof (cases "read_create w r")
  case (Inl e)
  then show ?thesis by (simp add: classify_step_def)
next
  case (Inr ev)
  show ?thesis
  proof (cases ev)
    case (CCreate ce)
    show ?thesis
    proof (cases "rsc_conference_id ce = Some (conf_id c)")
      case False
      with Inr CCreate show ?thesis by (simp add: classify_step_def classifyRoom_def)
    next
      case True
      show ?thesis
      proof (cases "rsc_room_kind_flag ce")
        case None
        with Inr CCreate show ?thesis by (simp add: classify_step_def classifyRoom_def)
      next
        case (Some kind)
        have st: "classify_step w r c = classifyRoom r (CCreate ce) c"
          using Inr CCreate by (simp add: classify_step_def)
        have "room_claims w (conf_id c) r kind (js_key (logical_id kind ce))"
          using Inr CCreate True Some by (simp add: room_claims_def)
        with classifyRoom_bucket [OF True Some, of r] st show ?thesis by metis
      qed
    qed
  qed (use Inr in \<open>simp_all add: classify_step_def classifyRoom_def\<close>)
qed





text \<open>The last writer wins: a key keeps the room that claims it as long as no other
  room that claims it comes by.\<close>

lemma claimed_step:
  assumes "r' = r \<and> room_claims w (conf_id c) r kind key
           \<or> \<not> room_claims w (conf_id c) r' kind key
              \<and> map_of (catalog_bucket kind c) key = Some r"
  shows "map_of (catalog_bucket kind (classify_step w r' c)) key = Some r"
proof -
  from classify_step_cases [of w r' c] show ?thesis
  proof
    assume same: "classify_step w r' c = c"
    show ?thesis
    proof (cases "r' = r \<and> room_claims w (conf_id c) r kind key")
      case False
      with assms same show ?thesis by simp
    next
      case True
      then have cl: "room_claims w (conf_id c) r' kind key" by simp
      then obtain ce where rd: "read_create w r' = Inr (CCreate ce)"
        and m: "rsc_conference_id ce = Some (conf_id c)" and k: "rsc_room_kind_flag ce = Some kind"
        and y: "js_key (logical_id kind ce) = key"
        by (auto simp: room_claims_def split: sum.splits content.splits)
      from rd have "classify_step w r' c = classifyRoom r' (CCreate ce) c"
        by (simp add: classify_step_def)
      with classifyRoom_bucket(1) [OF m k, of r'] y True show ?thesis by simp
    qed
  next
    assume "\<exists>kind' key'. room_claims w (conf_id c) r' kind' key'
        \<and> map_of (catalog_bucket kind' (classify_step w r' c)) key' = Some r'
        \<and> set (catalog_bucket kind' (classify_step w r' c)) \<subseteq> insert (key', r') (set (catalog_bucket kind' c))
        \<and> (\<forall>k. k \<noteq> key' \<longrightarrow> map_of (catalog_bucket kind' (classify_step w r' c)) k
                              = map_of (catalog_bucket kind' c) k)
        \<and> (\<forall>kind''. kind'' \<noteq> kind' \<longrightarrow> catalog_bucket kind'' (classify_step w r' c)
                                      = catalog_bucket kind'' c)"
    then obtain kind' key' where cl: "room_claims w (conf_id c) r' kind' key'"
      and hit: "map_of (catalog_bucket kind' (classify_step w r' c)) key' = Some r'"
      and keys: "\<forall>k. k \<noteq> key' \<longrightarrow> map_of (catalog_bucket kind' (classify_step w r' c)) k
                              = map_of (catalog_bucket kind' c) k"
      and oth: "\<forall>kind''. kind'' \<noteq> kind' \<longrightarrow> catalog_bucket kind'' (classify_step w r' c)
                                      = catalog_bucket kind'' c"
      by blast
    have uniq: "kind' = kind0 \<and> key' = key0" if "room_claims w (conf_id c) r' kind0 key0" for kind0 key0
      using that cl by (auto simp: room_claims_def split: sum.splits content.splits)
    show ?thesis
    proof (cases "r' = r \<and> room_claims w (conf_id c) r kind key")
      case True
      with uniq [of kind key] hit show ?thesis by auto
    next
      case False
      with assms have no: "\<not> room_claims w (conf_id c) r' kind key"
        and old: "map_of (catalog_bucket kind c) key = Some r" by auto
      from no cl have "kind' \<noteq> kind \<or> key' \<noteq> key" by auto
      with keys oth old show ?thesis by (cases "kind' = kind") auto
    qed
  qed
qed

lemma claimed_fold_keep:
  "map_of (catalog_bucket kind c) key = Some r \<Longrightarrow>
   \<forall>r' \<in> set rs. r' = r \<and> room_claims w (conf_id c) r kind key
                  \<or> \<not> room_claims w (conf_id c) r' kind key \<Longrightarrow>
   map_of (catalog_bucket kind (fold (classify_step w) rs c)) key = Some r"
proof (induction rs arbitrary: c)
  case Nil
  then show ?case by simp
next
  case (Cons x xs)
  from Cons.prems have "map_of (catalog_bucket kind (classify_step w x c)) key = Some r"
    by (intro claimed_step) auto
  moreover from Cons.prems
  have "\<forall>r' \<in> set xs. r' = r \<and> room_claims w (conf_id (classify_step w x c)) r kind key
                  \<or> \<not> room_claims w (conf_id (classify_step w x c)) r' kind key"
    by simp
  ultimately show ?case using Cons.IH by simp
qed

lemma claimed_fold:
  "r \<in> set rs \<Longrightarrow> room_claims w (conf_id c) r kind key \<Longrightarrow>
   \<forall>r' \<in> set rs. r' \<noteq> r \<longrightarrow> \<not> room_claims w (conf_id c) r' kind key \<Longrightarrow>
   map_of (catalog_bucket kind (fold (classify_step w) rs c)) key = Some r"
proof (induction rs arbitrary: c)
  case Nil
  then show ?case by simp
next
  case (Cons x xs)
  show ?case
  proof (cases "x = r")
    case True
    with Cons.prems have "map_of (catalog_bucket kind (classify_step w x c)) key = Some r"
      by (intro claimed_step) auto
    moreover from Cons.prems
    have "\<forall>r' \<in> set xs. r' = r \<and> room_claims w (conf_id (classify_step w x c)) r kind key
                  \<or> \<not> room_claims w (conf_id (classify_step w x c)) r' kind key"
      by auto
    ultimately show ?thesis using claimed_fold_keep by simp
  next
    case False
    with Cons.prems have "r \<in> set xs" by simp
    with Cons.prems Cons.IH [of "classify_step w x c"] show ?thesis by simp
  qed
qed

lemma room_claims_matches: "room_claims w confId r kind key \<Longrightarrow> room_matches w confId r"
  by (auto simp: room_claims_def room_matches_def split: sum.splits content.splits)

subsection \<open>Running the rebuild again\<close>

lemma unclaimed_step:
  assumes "\<not> room_claims w (conf_id c) r' kind key"
  shows "map_of (catalog_bucket kind (classify_step w r' c)) key = map_of (catalog_bucket kind c) key"
proof -
  from classify_step_cases [of w r' c] show ?thesis
  proof
    assume "classify_step w r' c = c"
    then show ?thesis by simp
  next
    assume "\<exists>kind' key'. room_claims w (conf_id c) r' kind' key'
        \<and> map_of (catalog_bucket kind' (classify_step w r' c)) key' = Some r'
        \<and> set (catalog_bucket kind' (classify_step w r' c)) \<subseteq> insert (key', r') (set (catalog_bucket kind' c))
        \<and> (\<forall>k. k \<noteq> key' \<longrightarrow> map_of (catalog_bucket kind' (classify_step w r' c)) k
                              = map_of (catalog_bucket kind' c) k)
        \<and> (\<forall>kind''. kind'' \<noteq> kind' \<longrightarrow> catalog_bucket kind'' (classify_step w r' c)
                                      = catalog_bucket kind'' c)"
    then obtain kind' key' where cl: "room_claims w (conf_id c) r' kind' key'"
      and keys: "\<forall>k. k \<noteq> key' \<longrightarrow> map_of (catalog_bucket kind' (classify_step w r' c)) k
                              = map_of (catalog_bucket kind' c) k"
      and oth: "\<forall>kind''. kind'' \<noteq> kind' \<longrightarrow> catalog_bucket kind'' (classify_step w r' c)
                                      = catalog_bucket kind'' c"
      by blast
    from assms cl have "kind' \<noteq> kind \<or> key' \<noteq> key" by auto
    with keys oth show ?thesis by (cases "kind' = kind") auto
  qed
qed

lemma unclaimed_fold:
  "\<forall>r' \<in> set rs. \<not> room_claims w (conf_id c) r' kind key \<Longrightarrow>
   map_of (catalog_bucket kind (fold (classify_step w) rs c)) key = map_of (catalog_bucket kind c) key"
  by (induction rs arbitrary: c) (simp_all add: unclaimed_step)

text \<open>When no two joined rooms claim the same key, the order in which the rooms are
  classified does not change what the buckets map each key to.\<close>

lemma order_independent:
  assumes "set rs' = set rs" and "\<forall>r \<in> set rs. \<not> isl (read_create w r)"
    and "claims_unique w (conf_id c) rs"
  shows "map_of (catalog_bucket kind (snd (construct_rooms w rs' 0 (reset c)))) key =
         map_of (catalog_bucket kind (snd (construct_rooms w rs 0 (reset c)))) key"
proof -
  from assms have run': "construct_rooms w rs' 0 (reset c) = (None, fold (classify_step w) rs' (reset c))"
    and run: "construct_rooms w rs 0 (reset c) = (None, fold (classify_step w) rs (reset c))"
    using construct_rooms_ok [of 0 rs' w "reset c"] construct_rooms_ok [of 0 rs w "reset c"]
    by simp_all
  show ?thesis
  proof (cases "\<exists>r \<in> set rs. room_claims w (conf_id c) r kind key")
    case False
    with assms(1) run run' show ?thesis by (simp add: unclaimed_fold)
  next
    case True
    then obtain r where r: "r \<in> set rs" "room_claims w (conf_id (reset c)) r kind key" by auto
    with assms(3)
    have only: "\<forall>r' \<in> set rs. r' \<noteq> r \<longrightarrow> \<not> room_claims w (conf_id (reset c)) r' kind key"
      by (auto simp: claims_unique_def)
    from r(1) only assms(1) have r': "r \<in> set rs'"
      and only': "\<forall>r' \<in> set rs'. r' \<noteq> r \<longrightarrow> \<not> room_claims w (conf_id (reset c)) r' kind key"
      by simp_all
    from claimed_fold [OF r only] claimed_fold [OF r' r(2) only'] run run'
    show ?thesis by simp
  qed
qed

lemma example_unique:
  "claims_unique example_world ''X'' [''!db'', ''!a1'', ''!b1'', ''!t1'', ''!other'']"
  by (auto simp: claims_unique_def room_claims_def read_create_def example_world_def
                 example_create_def split: if_splits)

text \<open>
  C9. Running \<open>construct\<close> on the catalog that \<open>construct\<close> has left, in the same
  world, ends in the same way and leaves the same catalog, the reads of each batch
  settling in the order they were issued. When they settle in another order, the
  rooms are classified in another order: if the creation records are all read and no
  two joined rooms claim the same key of the same bucket, the buckets have the same
  keys and map them to the same rooms.
\<close>

theorem construct_idempotent:
  "construct w (snd (construct w c)) = construct w c
   \<and> (set rs' = set rs \<and> (\<forall>r \<in> set rs. \<not> isl (read_create w r))
        \<and> claims_unique w (conf_id c) rs \<longrightarrow>
      (\<forall>kind key.
         map_of (catalog_bucket kind (snd (construct_rooms w rs' 0 (reset c)))) key =
         map_of (catalog_bucket kind (snd (construct_rooms w rs 0 (reset c)))) key))"
  using construct_cong [OF conf_id_construct [where w = w and c = c], where w = w]
        order_independent [where rs' = rs' and rs = rs and w = w and c = c]
  by blast

text \<open>Witness: the rebuild of the example, run twice; and the classification of its
  five rooms in the opposite order.\<close>

theorem construct_idempotent_witness:
  "construct example_world (snd (construct example_world example_conference_alice)) =
     (None, example_conference)
   \<and> map_of (catalog_bucket Talk (snd (construct_rooms example_world
               [''!other'', ''!t1'', ''!b1'', ''!a1'', ''!db''] 0 (reset example_conference)))) ''T1''
     = map_of (catalog_bucket Talk (snd (construct_rooms example_world
               [''!db'', ''!a1'', ''!b1'', ''!t1'', ''!other''] 0 (reset example_conference)))) ''T1''"
proof -
  have one: "construct example_world example_conference_alice = (None, example_conference)"
    by code_simp
  have reads: "\<forall>r \<in> set [''!db'', ''!a1'', ''!b1'', ''!t1'', ''!other''].
                 \<not> isl (read_create example_world r)"
    by code_simp
  have perm: "set [''!other'', ''!t1'', ''!b1'', ''!a1'', ''!db'']
                = set [''!db'', ''!a1'', ''!b1'', ''!t1'', ''!other'']"
    by auto
  have x: "conf_id example_conference = ''X''" by (simp add: example_conference_def)
  from construct_idempotent [where w = example_world and c = example_conference_alice]
       construct_idempotent
         [where w = example_world and c = example_conference
            and rs' = "[''!other'', ''!t1'', ''!b1'', ''!a1'', ''!db'']"
            and rs = "[''!db'', ''!a1'', ''!b1'', ''!t1'', ''!other'']"]
       one reads perm example_unique x
  show ?thesis by simp
qed

subsection \<open>What the rebuild leaves in the buckets\<close>


lemma catalog_bucket_people [simp]:
  "catalog_bucket kind (c\<lparr>people := p\<rparr>) = catalog_bucket kind c"
  by (simp add: catalog_bucket_def split: RoomKind.splits option.splits)

lemma catalog_bucket_subspaces [simp]:
  "catalog_bucket kind (c\<lparr>subspaces := s\<rparr>) = catalog_bucket kind c"
  by (simp add: catalog_bucket_def split: RoomKind.splits option.splits)

lemma catalog_bucket_load_people [simp]:
  "catalog_bucket kind (load_people st c) = catalog_bucket kind c"
proof -
  have "catalog_bucket kind
          (fold (\<lambda>p c. c\<lparr>people := AList.update (js_key (pentaId p)) p (people c)\<rparr>) ps c)
          = catalog_bucket kind c" for ps
    by (induction ps arbitrary: c) auto
  then show ?thesis by (simp add: load_people_def)
qed

lemma catalog_bucket_load_subspaces [simp]:
  "catalog_bucket kind (snd (load_subspaces w evs c)) = catalog_bucket kind c"
  by (induction evs arbitrary: c) (auto split: sum.splits)














section \<open>Properties of the invite redemption\<close>

subsection \<open>What the handler checks\<close>

lemma find_token:
  "find (\<lambda>e. ev_type e = T \<and> Some (state_key e) = tok) st = Some z \<longleftrightarrow>
     (\<exists>token. tok = Some token \<and> find (\<lambda>e. ev_type e = T \<and> state_key e = token) st = Some z)"
proof (cases tok)
  case None
  have "find (\<lambda>e. False) st = None" by (induction st) auto
  with None show ?thesis by simp
next
  case (Some token)
  then show ?thesis by simp
qed

lemma handler_applied_verified:
  "fst (room_event_handler w roomId event c) = Applied \<Longrightarrow> redemption_verified w roomId event"
  unfolding room_event_handler_def redemption_verified_def content_person_id_def Let_def
  by (auto simp: find_token split: if_splits option.splits sum.splits content.splits prod.splits)

lemma handler_unverified:
  "\<not> redemption_verified w roomId event \<Longrightarrow>
     (fst (room_event_handler w roomId event c) = Rejected
      \<or> (\<exists>e. fst (room_event_handler w roomId event c) = Threw e))
     \<and> snd (room_event_handler w roomId event c) = (c, [])"
  unfolding room_event_handler_def redemption_verified_def content_person_id_def Let_def
  by (auto simp: find_token split: if_splits option.splits sum.splits content.splits prod.splits)

text \<open>The example: \<open>@alice:x\<close> redeems the invite to \<open>!a1\<close>, then \<open>@mallory:x\<close>
  redeems the same invite.\<close>

lemmas example_handler_simps =
  room_event_handler_def example_world_def example_redemption_def example_conference_def
  example_conference_alice_def example_conference_twice_def stamped_def
  example_room_state_def example_person_def example_speaker_def content_person_id_def
  createUpdatePerson_def makeStoredPerson_def js_key_def update_permissions_def
  storedAuditoriums_def storedAuditoriumBackstages_def storedTalks_def moderate_room_def
  getModeratorsForAuditorium_def getModeratorsForTalk_def getPeopleForAuditorium_def
  getPeopleForTalk_def resolvePeople_def getPerson_def ensureModerator_def
  ensurePermissionsFor_def target_mxids_def truthy_def merge_users_def
  truthy_level_def Let_def

lemma example_first_redemption:
  "room_event_handler example_world ''!a1'' (example_redemption ''@alice:x'') example_conference =
     (Applied, example_conference_alice,
      [SentStateEvent ''!db'' RS_STORED_PERSON ''p1'' (CStoredPerson (stamped ''p1'' ''@alice:x'')),
       SentStateEvent ''!a1'' MRoomPowerLevels []
         (CPowerLevels (Some [(''@alice:x'', 50), (''@carol:x'', 100), (''@bot:x'', 100),
                              (''@mod:x'', 100)]))])"
  by (simp add: example_handler_simps)

lemma example_second_redemption:
  "room_event_handler example_world ''!a1'' (example_redemption ''@mallory:x'')
       example_conference_alice =
     (Applied,
      example_conference\<lparr>people := [(''p1'', stamped ''p1'' ''@mallory:x'')]\<rparr>,
      [SentStateEvent ''!db'' RS_STORED_PERSON ''p1'' (CStoredPerson (stamped ''p1'' ''@mallory:x'')),
       SentStateEvent ''!a1'' MRoomPowerLevels []
         (CPowerLevels (Some [(''@alice:x'', 0), (''@carol:x'', 100), (''@bot:x'', 100),
                              (''@mod:x'', 100), (''@mallory:x'', 50)]))])"
  by (simp add: example_handler_simps)

lemma example_verified:
  "redemption_verified example_world ''!a1'' (example_redemption u)"
  unfolding redemption_verified_def
  by (simp add: example_world_def example_redemption_def example_room_state_def example_person_def)

lemma example_unverified:
  "\<not> redemption_verified example_world ''!b1'' (example_redemption u)"
  unfolding redemption_verified_def
  by (simp add: example_world_def example_redemption_def)

lemma handler_unverified_threw:
  "\<not> redemption_verified w roomId event \<Longrightarrow>
   fst (room_event_handler w roomId event c) = Threw e \<Longrightarrow>
     (\<exists>tok. re_type event = MRoomMember \<and> re_third_party_invite event = Some tok
            \<and> getRoomStateEvent w roomId MRoomThirdPartyInvite tok = Inl e)
     \<or> getRoomState w roomId = Inl e
     \<or> (\<exists>personId. findPeopleWithId w personId = Inl e)"
  unfolding room_event_handler_def redemption_verified_def content_person_id_def Let_def
  by (auto simp: find_token split: if_splits option.splits sum.splits content.splits prod.splits)

lemma handler_absent_record:
  "re_type event = MRoomMember \<Longrightarrow> re_third_party_invite event = Some tok \<Longrightarrow>
   getRoomStateEvent w roomId MRoomThirdPartyInvite tok = Inl e \<Longrightarrow>
   room_event_handler w roomId event c = (Threw e, c, [])"
  by (simp add: room_event_handler_def)

text \<open>
  C1, as amended. The handler ends in \<open>Applied\<close> only if the event is a membership
  event with a third-party-invite token, the third-party-invite record under this
  token exists in the room and carries a person ID, the creation event and the
  third-party-invite event of the room state were sent by the agent, and the backend
  finds a person with this ID. If one of these fails, the handler changes nothing (the
  catalog is the one it started from and nothing was sent) and ends either in
  \<open>Rejected\<close>, by falling out of an \<open>if\<close>, or by throwing the error of a read that
  was rejected: the read of the invite record, of the room state or of the backend. In
  particular, when the read of the invite record is rejected, as it is for a record
  that does not exist, the handler throws.
\<close>

theorem room_event_handler_applies_only_verified:
  "(fst (room_event_handler w roomId event c) = Applied \<longrightarrow> redemption_verified w roomId event)
   \<and> (\<not> redemption_verified w roomId event \<longrightarrow>
        snd (room_event_handler w roomId event c) = (c, [])
        \<and> (fst (room_event_handler w roomId event c) = Rejected
           \<or> (\<exists>e. fst (room_event_handler w roomId event c) = Threw e
                \<and> ((\<exists>tok. re_type event = MRoomMember \<and> re_third_party_invite event = Some tok
                          \<and> getRoomStateEvent w roomId MRoomThirdPartyInvite tok = Inl e)
                    \<or> getRoomState w roomId = Inl e
                    \<or> (\<exists>personId. findPeopleWithId w personId = Inl e)))))
   \<and> (re_type event = MRoomMember \<and> re_third_party_invite event = Some tok
        \<and> getRoomStateEvent w roomId MRoomThirdPartyInvite tok = Inl e \<longrightarrow>
        room_event_handler w roomId event c = (Threw e, c, []))"
  using handler_applied_verified [of w roomId event c] handler_unverified [of w roomId event c]
        handler_unverified_threw [of w roomId event c] handler_absent_record [of event tok w roomId e c]
  by blast

text \<open>Witness: the redemption of the invite to \<open>!a1\<close> is applied and verified; the same
  event in \<open>!b1\<close>, where there is no such invite, is not verified and changes nothing.\<close>

theorem room_event_handler_applies_only_verified_witness:
  "fst (room_event_handler example_world ''!a1'' (example_redemption ''@alice:x'') example_conference)
     = Applied
   \<and> redemption_verified example_world ''!a1'' (example_redemption ''@alice:x'')
   \<and> \<not> redemption_verified example_world ''!b1'' (example_redemption ''@alice:x'')
   \<and> getRoomStateEvent example_world ''!b1'' MRoomThirdPartyInvite (Some ''tok'')
       = Inl (RequestError ''M_NOT_FOUND'')
   \<and> room_event_handler example_world ''!b1'' (example_redemption ''@alice:x'') example_conference
       = (Threw (RequestError ''M_NOT_FOUND''), example_conference, [])"
proof -
  have h: "re_type (example_redemption ''@alice:x'') = MRoomMember
           \<and> re_third_party_invite (example_redemption ''@alice:x'') = Some (Some ''tok'')
           \<and> getRoomStateEvent example_world ''!b1'' MRoomThirdPartyInvite (Some ''tok'')
               = Inl (RequestError ''M_NOT_FOUND'')"
    by (simp add: example_world_def example_redemption_def)
  from room_event_handler_applies_only_verified
         [where w = example_world and roomId = "''!a1''" and c = example_conference
            and event = "example_redemption ''@alice:x''" and tok = "Some ''tok''"
            and e = "RequestError ''M_NOT_FOUND''"]
       room_event_handler_applies_only_verified
         [where w = example_world and roomId = "''!b1''" and c = example_conference
            and event = "example_redemption ''@alice:x''" and tok = "Some ''tok''"
            and e = "RequestError ''M_NOT_FOUND''"]
       example_first_redemption example_unverified [of "''@alice:x''"] h
  show ?thesis by simp
qed

text \<open>Counterexample to C1 as stated: the event carries the token \<open>tok\<close>, room \<open>!b1\<close>
  has no third-party-invite record under it, and the handler does not end in
  \<open>Rejected\<close>: it throws the error of the read.\<close>

theorem room_event_handler_applies_only_verified_counterexample:
  "re_third_party_invite (example_redemption ''@alice:x'') = Some (Some ''tok'')
   \<and> getRoomStateEvent example_world ''!b1'' MRoomThirdPartyInvite (Some ''tok'')
       = Inl (RequestError ''M_NOT_FOUND'')
   \<and> room_event_handler example_world ''!b1'' (example_redemption ''@alice:x'') example_conference
       = (Threw (RequestError ''M_NOT_FOUND''), example_conference, [])
   \<and> fst (room_event_handler example_world ''!b1'' (example_redemption ''@alice:x'') example_conference)
       \<noteq> Rejected"
  by (simp add: room_event_handler_def example_world_def example_redemption_def)


subsection \<open>What the handler stores\<close>

lemma createUpdatePerson_cases:
  assumes "createUpdatePerson w p c = (r, c', eff)"
  shows "(r \<noteq> None \<and> c' = c \<and> eff = []) \<or>
         (\<exists>db. r = None \<and> dbRoom c = Some db
            \<and> c' = c\<lparr>people := AList.update (person_id p)
                        \<lparr>pentaId = Some (person_id p), userId = matrix_id p\<rparr> (people c)\<rparr>
            \<and> eff = [SentStateEvent db RS_STORED_PERSON (person_id p)
                        (CStoredPerson \<lparr>pentaId = Some (person_id p), userId = matrix_id p\<rparr>)])"
proof (cases "dbRoom c")
  case None
  with assms show ?thesis
    by (auto simp: createUpdatePerson_def makeStoredPerson_def)
next
  case (Some db)
  show ?thesis
  proof (cases "sendStateEvent w db RS_STORED_PERSON (person_id p)
                  (CStoredPerson \<lparr>pentaId = Some (person_id p), userId = matrix_id p\<rparr>)")
    case None
    with assms Some show ?thesis
      by (auto simp: createUpdatePerson_def makeStoredPerson_def js_key_def)
  next
    case (Some e)
    with assms \<open>dbRoom c = Some db\<close> have "r = Some e" "c' = c" "eff = []"
      by (simp_all add: createUpdatePerson_def makeStoredPerson_def)
    then show ?thesis by simp
  qed
qed

text \<open>Stamping changes nothing of the catalog but the people, and sends nothing but
  stored-person records.\<close>

lemma stamp_people_frame:
  "stamp_people w sk ps c = (r, c', eff) \<Longrightarrow>
     c' = c\<lparr>people := people c'\<rparr>
     \<and> (\<forall>e \<in> set eff. \<exists>db k v. e = SentStateEvent db RS_STORED_PERSON k v)"
proof (induction ps arbitrary: c r c' eff)
  case Nil
  then show ?case by simp
next
  case (Cons p ps)
  obtain r1 c1 eff1 where one: "createUpdatePerson w (p\<lparr>matrix_id := Some sk\<rparr>) c = (r1, c1, eff1)"
    by (metis prod_cases3)
  show ?case
  proof (cases r1)
    case None
    obtain r2 c2 eff2 where rest: "stamp_people w sk ps c1 = (r2, c2, eff2)"
      by (metis prod_cases3)
    from Cons.prems one None rest have res: "r = r2" "c' = c2" "eff = eff1 @ eff2"
      by (simp_all add: Let_def)
    from createUpdatePerson_cases [OF one] None
    have c1: "c1 = c\<lparr>people := people c1\<rparr>"
      and e1: "\<forall>e \<in> set eff1. \<exists>db k v. e = SentStateEvent db RS_STORED_PERSON k v"
      by auto
    from Cons.IH [OF rest]
    have c2: "c2 = c1\<lparr>people := people c2\<rparr>"
      and e2: "\<forall>e \<in> set eff2. \<exists>db k v. e = SentStateEvent db RS_STORED_PERSON k v"
      by auto
    have "c2 = c\<lparr>people := people c2\<rparr>"
      by (subst c2, subst c1) simp
    with res e1 e2 show ?thesis by auto
  next
    case (Some e)
    with Cons.prems one have "r = Some e" "c' = c1" "eff = eff1" by (simp_all add: Let_def)
    with createUpdatePerson_cases [OF one] Some show ?thesis by auto
  qed
qed

lemma stamp_people_keeps:
  "stamp_people w sk ps c = (r, c', eff) \<Longrightarrow> getPerson c k = Some (stamped k sk) \<Longrightarrow>
     getPerson c' k = Some (stamped k sk)"
proof (induction ps arbitrary: c r c' eff)
  case Nil
  then show ?case by simp
next
  case (Cons p ps)
  obtain r1 c1 eff1 where one: "createUpdatePerson w (p\<lparr>matrix_id := Some sk\<rparr>) c = (r1, c1, eff1)"
    by (metis prod_cases3)
  from createUpdatePerson_cases [OF one] Cons.prems(2)
  have keep: "getPerson c1 k = Some (stamped k sk)"
    by (auto simp: getPerson_def update_conv stamped_def)
  show ?case
  proof (cases r1)
    case None
    obtain r2 c2 eff2 where rest: "stamp_people w sk ps c1 = (r2, c2, eff2)"
      by (metis prod_cases3)
    from Cons.prems(1) one None rest have "c' = c2" by (simp add: Let_def)
    with Cons.IH [OF rest keep] show ?thesis by simp
  next
    case (Some e)
    with Cons.prems(1) one have "c' = c1" by (simp add: Let_def)
    with keep show ?thesis by simp
  qed
qed

lemma stamp_people_stamps:
  "stamp_people w sk ps c = (None, c', eff) \<Longrightarrow> p \<in> set ps \<Longrightarrow>
     getPerson c' (person_id p) = Some (stamped (person_id p) sk)"
proof (induction ps arbitrary: c c' eff)
  case Nil
  then show ?case by simp
next
  case (Cons q ps)
  obtain r1 c1 eff1 where one: "createUpdatePerson w (q\<lparr>matrix_id := Some sk\<rparr>) c = (r1, c1, eff1)"
    by (metis prod_cases3)
  obtain r2 c2 eff2 where rest: "stamp_people w sk ps c1 = (r2, c2, eff2)"
    by (metis prod_cases3)
  from Cons.prems(1) one rest have ok: "r1 = None" "r2 = None" "c' = c2"
    by (auto simp: Let_def split: option.splits)
  show ?case
  proof (cases "p \<in> set ps")
    case True
    from Cons.IH [OF rest [unfolded ok] True] ok show ?thesis by simp
  next
    case False
    with Cons.prems(2) have "p = q" by simp
    with createUpdatePerson_cases [OF one] ok
    have "getPerson c1 (person_id p) = Some (stamped (person_id p) sk)"
      by (auto simp: getPerson_def update_conv stamped_def)
    from stamp_people_keeps [OF rest this] ok show ?thesis by simp
  qed
qed

text \<open>
  C2, as amended. An applied redemption overwrites: after the handler has ended in
  \<open>Applied\<close>, the catalog's record of every person that the backend found for the
  person ID of the invite carries the platform identity of this event (its state key),
  whatever identity the catalog held for this person before.
\<close>

theorem room_event_handler_stamps_latest_identity:
  assumes "room_event_handler w roomId event c = (Applied, c', eff)"
  shows "\<exists>token personId ps.
            re_third_party_invite event = Some (Some token)
          \<and> getRoomStateEvent w roomId MRoomThirdPartyInvite (Some token)
               = Inr (CThirdPartyInvite (Some personId))
          \<and> findPeopleWithId w personId = Inr ps \<and> ps \<noteq> []
          \<and> (\<forall>p \<in> set ps. getPerson c' (person_id p)
                               = Some (stamped (person_id p) (re_state_key event)))"
  using assms
  unfolding room_event_handler_def content_person_id_def Let_def
  by (auto simp: find_token dest: stamp_people_stamps
        split: if_splits option.splits sum.splits content.splits prod.splits)

text \<open>Witness: the second redemption of the example is applied, and the record of
  \<open>p1\<close> carries \<open>@mallory:x\<close>.\<close>

theorem room_event_handler_stamps_latest_identity_witness:
  "fst (room_event_handler example_world ''!a1'' (example_redemption ''@mallory:x'')
          example_conference_alice) = Applied
   \<and> (\<exists>token personId ps.
            re_third_party_invite (example_redemption ''@mallory:x'') = Some (Some token)
          \<and> getRoomStateEvent example_world ''!a1'' MRoomThirdPartyInvite (Some token)
               = Inr (CThirdPartyInvite (Some personId))
          \<and> findPeopleWithId example_world personId = Inr ps \<and> ps \<noteq> []
          \<and> (\<forall>p \<in> set ps.
                getPerson (example_conference\<lparr>people := [(''p1'', stamped ''p1'' ''@mallory:x'')]\<rparr>)
                  (person_id p)
                = Some (stamped (person_id p) (re_state_key (example_redemption ''@mallory:x'')))))"
  using room_event_handler_stamps_latest_identity [OF example_second_redemption]
  by (simp add: example_second_redemption)

text \<open>Counterexample to C2 as stated: person \<open>p1\<close> is correlated with \<open>@alice:x\<close> by a
  first redemption; a second redemption by \<open>@mallory:x\<close> is applied, and the record of
  \<open>p1\<close> then carries \<open>@mallory:x\<close>.\<close>

theorem room_event_handler_stamps_latest_identity_counterexample:
  "room_event_handler example_world ''!a1'' (example_redemption ''@alice:x'') example_conference =
     (Applied, example_conference_alice,
      [SentStateEvent ''!db'' RS_STORED_PERSON ''p1'' (CStoredPerson (stamped ''p1'' ''@alice:x'')),
       SentStateEvent ''!a1'' MRoomPowerLevels []
         (CPowerLevels (Some [(''@alice:x'', 50), (''@carol:x'', 100), (''@bot:x'', 100),
                              (''@mod:x'', 100)]))])
   \<and> map_option userId (getPerson example_conference_alice ''p1'') = Some (Some ''@alice:x'')
   \<and> fst (room_event_handler example_world ''!a1'' (example_redemption ''@mallory:x'')
            example_conference_alice) = Applied
   \<and> map_option userId
        (getPerson (fst (snd (room_event_handler example_world ''!a1''
                                (example_redemption ''@mallory:x'') example_conference_alice))) ''p1'')
       = Some (Some ''@mallory:x'')"
  by (simp add: example_first_redemption example_second_redemption)
     (simp add: getPerson_def example_conference_alice_def stamped_def)

subsection \<open>Which permissions the handler updates\<close>

lemma find_eq: "find (\<lambda>a. a = x) xs = (if x \<in> set xs then Some x else None)"
  by (induction xs) auto

lemma update_permissions_order:
  "update_permissions w roomId c =
     (if roomId \<in> set (storedAuditoriums c) \<or> roomId \<in> set (storedAuditoriumBackstages c)
        then moderate_room w roomId (getModeratorsForAuditorium w c roomId)
      else if roomId \<in> set (storedTalks c)
        then moderate_room w roomId (getModeratorsForTalk w c roomId)
      else (None, []))"
  by (simp add: update_permissions_def find_eq)

lemma handler_effects:
  assumes "e \<in> set (snd (snd (room_event_handler w roomId event c)))"
  shows "(\<exists>db k v. e = SentStateEvent db RS_STORED_PERSON k v)
       \<or> (\<exists>c'. c' = c\<lparr>people := people c'\<rparr> \<and> e \<in> set (snd (update_permissions w roomId c')))"
  using assms
  unfolding room_event_handler_def Let_def
  by (auto split: if_splits option.splits sum.splits prod.splits dest: stamp_people_frame)

lemma handler_correlated:
  assumes "correlated w roomId event c c' eff"
  shows "room_event_handler w roomId event c =
           (case update_permissions w roomId c' of
              (None, eff') \<Rightarrow> (Applied, c', eff @ eff')
            | (Some e, eff') \<Rightarrow> (Threw e, c', eff @ eff'))"
proof -
  from assms obtain token personId state createEv inviteEv ps where
    "re_type event = MRoomMember"
    "re_third_party_invite event = Some (Some token)"
    "getRoomStateEvent w roomId MRoomThirdPartyInvite (Some token)
           = Inr (CThirdPartyInvite (Some personId))"
    "personId \<noteq> []"
    "getRoomState w roomId = Inr state"
    "find (\<lambda>e. ev_type e = MRoomCreate) state = Some createEv"
    "sender createEv = getUserId w"
    "find (\<lambda>e. ev_type e = MRoomThirdPartyInvite \<and> state_key e = token) state = Some inviteEv"
    "sender inviteEv = getUserId w"
    "findPeopleWithId w personId = Inr ps"
    "ps \<noteq> []"
    "stamp_people w (re_state_key event) ps c = (None, c', eff)"
    unfolding correlated_def by blast
  then show ?thesis
    by (simp add: room_event_handler_def content_person_id_def Let_def
             split: prod.splits option.splits)
qed

lemma correlated_stored:
  assumes "correlated w roomId event c c' eff"
  shows "storedAuditoriums c' = storedAuditoriums c"
    and "storedAuditoriumBackstages c' = storedAuditoriumBackstages c"
    and "storedTalks c' = storedTalks c"
proof -
  from assms obtain ps where "stamp_people w (re_state_key event) ps c = (None, c', eff)"
    unfolding correlated_def by blast
  from stamp_people_frame [OF this] have c': "c' = c\<lparr>people := people c'\<rparr>" by simp
  show "storedAuditoriums c' = storedAuditoriums c"
    and "storedAuditoriumBackstages c' = storedAuditoriumBackstages c"
    and "storedTalks c' = storedTalks c"
    by (subst c', simp add: storedAuditoriums_def storedAuditoriumBackstages_def storedTalks_def)+
qed

text \<open>
  C8. After a successful correlation the handler looks the room up among the
  auditoriums, then among the backstages, then among the talks, and updates the
  permissions of the room with the moderators of the first kind it is found in: those
  of an auditorium for a room found among the auditoriums or else among the backstages
  (also when it is found among the talks as well), those of a talk for a room found
  only among the talks. It ends in \<open>Applied\<close> when the update succeeds, and throws
  when it does not. For a room found in none of the three it ends in \<open>Applied\<close> with
  no update, and whatever the handler sends for such a room is a stored-person record.
\<close>

theorem room_event_handler_lookup_order:
  "(correlated w roomId event c c' eff \<and> roomId \<in> set (storedAuditoriums c) \<longrightarrow>
      room_event_handler w roomId event c =
        (case moderate_room w roomId (getModeratorsForAuditorium w c' roomId) of
           (None, eff') \<Rightarrow> (Applied, c', eff @ eff')
         | (Some e, eff') \<Rightarrow> (Threw e, c', eff @ eff')))
   \<and> (correlated w roomId event c c' eff \<and> roomId \<notin> set (storedAuditoriums c)
        \<and> roomId \<in> set (storedAuditoriumBackstages c) \<longrightarrow>
      room_event_handler w roomId event c =
        (case moderate_room w roomId (getModeratorsForAuditorium w c' roomId) of
           (None, eff') \<Rightarrow> (Applied, c', eff @ eff')
         | (Some e, eff') \<Rightarrow> (Threw e, c', eff @ eff')))
   \<and> (correlated w roomId event c c' eff \<and> roomId \<notin> set (storedAuditoriums c)
        \<and> roomId \<notin> set (storedAuditoriumBackstages c) \<and> roomId \<in> set (storedTalks c) \<longrightarrow>
      room_event_handler w roomId event c =
        (case moderate_room w roomId (getModeratorsForTalk w c' roomId) of
           (None, eff') \<Rightarrow> (Applied, c', eff @ eff')
         | (Some e, eff') \<Rightarrow> (Threw e, c', eff @ eff')))
   \<and> (correlated w roomId event c c' eff \<and> roomId \<notin> set (storedAuditoriums c)
        \<and> roomId \<notin> set (storedAuditoriumBackstages c) \<and> roomId \<notin> set (storedTalks c) \<longrightarrow>
      room_event_handler w roomId event c = (Applied, c', eff))
   \<and> (roomId \<notin> set (storedAuditoriums c) \<and> roomId \<notin> set (storedAuditoriumBackstages c)
        \<and> roomId \<notin> set (storedTalks c) \<longrightarrow>
      (\<forall>e \<in> set (snd (snd (room_event_handler w roomId event c))).
            \<exists>db k v. e = SentStateEvent db RS_STORED_PERSON k v))"
proof -
  have last: "\<exists>db k v. e = SentStateEvent db RS_STORED_PERSON k v"
    if none: "roomId \<notin> set (storedAuditoriums c)" "roomId \<notin> set (storedAuditoriumBackstages c)"
             "roomId \<notin> set (storedTalks c)"
      and e: "e \<in> set (snd (snd (room_event_handler w roomId event c)))" for e
  proof -
    from handler_effects [OF e] show ?thesis
    proof
      assume "\<exists>c'. c' = c\<lparr>people := people c'\<rparr> \<and> e \<in> set (snd (update_permissions w roomId c'))"
      then obtain c' where c': "c' = c\<lparr>people := people c'\<rparr>"
        and in_e: "e \<in> set (snd (update_permissions w roomId c'))" by blast
      have "storedAuditoriums c' = storedAuditoriums c"
           "storedAuditoriumBackstages c' = storedAuditoriumBackstages c"
           "storedTalks c' = storedTalks c"
        by (subst c', simp add: storedAuditoriums_def storedAuditoriumBackstages_def storedTalks_def)+
      with none in_e show ?thesis by (simp add: update_permissions_order)
    qed
  qed
  have main: "room_event_handler w roomId event c =
           (case (if roomId \<in> set (storedAuditoriums c) \<or> roomId \<in> set (storedAuditoriumBackstages c)
                    then moderate_room w roomId (getModeratorsForAuditorium w c' roomId)
                  else if roomId \<in> set (storedTalks c)
                    then moderate_room w roomId (getModeratorsForTalk w c' roomId)
                  else (None, [])) of
              (None, eff') \<Rightarrow> (Applied, c', eff @ eff')
            | (Some e, eff') \<Rightarrow> (Threw e, c', eff @ eff'))"
    if "correlated w roomId event c c' eff"
    using handler_correlated [OF that] correlated_stored [OF that]
    by (simp add: update_permissions_order)
  show ?thesis
    using main last by (intro conjI impI ballI) auto
qed

lemmas example_correlated_simps =
  correlated_def example_world_def example_redemption_def example_room_state_def
  example_person_def example_conference_def example_conference_twice_def
  example_conference_backstage_def example_conference_talk_def example_conference_none_def
  createUpdatePerson_def makeStoredPerson_def js_key_def stamped_def Let_def

lemma example_correlated:
  "correlated example_world ''!a1'' (example_redemption ''@alice:x'') example_conference_twice
     (example_conference_twice\<lparr>people := [(''p1'', stamped ''p1'' ''@alice:x'')]\<rparr>)
     [SentStateEvent ''!db'' RS_STORED_PERSON ''p1'' (CStoredPerson (stamped ''p1'' ''@alice:x''))]"
  "correlated example_world ''!a1'' (example_redemption ''@alice:x'') example_conference_backstage
     (example_conference_backstage\<lparr>people := [(''p1'', stamped ''p1'' ''@alice:x'')]\<rparr>)
     [SentStateEvent ''!db'' RS_STORED_PERSON ''p1'' (CStoredPerson (stamped ''p1'' ''@alice:x''))]"
  "correlated example_world ''!a1'' (example_redemption ''@alice:x'') example_conference_talk
     (example_conference_talk\<lparr>people := [(''p1'', stamped ''p1'' ''@alice:x'')]\<rparr>)
     [SentStateEvent ''!db'' RS_STORED_PERSON ''p1'' (CStoredPerson (stamped ''p1'' ''@alice:x''))]"
  "correlated example_world ''!a1'' (example_redemption ''@alice:x'') example_conference_none
     (example_conference_none\<lparr>people := [(''p1'', stamped ''p1'' ''@alice:x'')]\<rparr>)
     [SentStateEvent ''!db'' RS_STORED_PERSON ''p1'' (CStoredPerson (stamped ''p1'' ''@alice:x''))]"
  by (simp_all add: example_correlated_simps)

lemmas example_moderate_simps =
  example_world_def example_conference_def example_conference_twice_def
  example_conference_backstage_def example_conference_talk_def example_conference_none_def
  stamped_def example_person_def example_speaker_def
  storedAuditoriums_def storedAuditoriumBackstages_def storedTalks_def moderate_room_def
  getModeratorsForAuditorium_def getModeratorsForTalk_def getPeopleForAuditorium_def
  getPeopleForTalk_def resolvePeople_def getPerson_def ensureModerator_def
  ensurePermissionsFor_def target_mxids_def truthy_def merge_users_def
  truthy_level_def Let_def

text \<open>Witness: \<open>@alice:x\<close> redeems the invite to \<open>!a1\<close> under four catalogs. Found among
  the auditoriums and among the talks, or only among the backstages, \<open>!a1\<close> gets the
  moderators of an auditorium (the speaker \<open>@erin:x\<close> is not one); found only among the
  talks, it gets the moderators of a talk, \<open>@erin:x\<close> among them; found nowhere, it gets
  no update.\<close>

theorem room_event_handler_lookup_order_witness:
  "''!a1'' \<in> set (storedAuditoriums example_conference_twice)
   \<and> ''!a1'' \<in> set (storedTalks example_conference_twice)
   \<and> room_event_handler example_world ''!a1'' (example_redemption ''@alice:x'')
        example_conference_twice =
       (Applied, example_conference_twice\<lparr>people := [(''p1'', stamped ''p1'' ''@alice:x'')]\<rparr>,
        [SentStateEvent ''!db'' RS_STORED_PERSON ''p1'' (CStoredPerson (stamped ''p1'' ''@alice:x'')),
         SentStateEvent ''!a1'' MRoomPowerLevels []
           (CPowerLevels (Some [(''@alice:x'', 50), (''@carol:x'', 100), (''@bot:x'', 100),
                                (''@mod:x'', 100)]))])
   \<and> room_event_handler example_world ''!a1'' (example_redemption ''@alice:x'')
        example_conference_backstage =
       (Applied, example_conference_backstage\<lparr>people := [(''p1'', stamped ''p1'' ''@alice:x'')]\<rparr>,
        [SentStateEvent ''!db'' RS_STORED_PERSON ''p1'' (CStoredPerson (stamped ''p1'' ''@alice:x'')),
         SentStateEvent ''!a1'' MRoomPowerLevels []
           (CPowerLevels (Some [(''@alice:x'', 50), (''@carol:x'', 100), (''@bot:x'', 100),
                                (''@mod:x'', 100)]))])
   \<and> room_event_handler example_world ''!a1'' (example_redemption ''@alice:x'')
        example_conference_talk =
       (Applied, example_conference_talk\<lparr>people := [(''p1'', stamped ''p1'' ''@alice:x'')]\<rparr>,
        [SentStateEvent ''!db'' RS_STORED_PERSON ''p1'' (CStoredPerson (stamped ''p1'' ''@alice:x'')),
         SentStateEvent ''!a1'' MRoomPowerLevels []
           (CPowerLevels (Some [(''@alice:x'', 50), (''@carol:x'', 100), (''@bot:x'', 100),
                                (''@mod:x'', 100), (''@erin:x'', 50)]))])
   \<and> room_event_handler example_world ''!a1'' (example_redemption ''@alice:x'')
        example_conference_none =
       (Applied, example_conference_none\<lparr>people := [(''p1'', stamped ''p1'' ''@alice:x'')]\<rparr>,
        [SentStateEvent ''!db'' RS_STORED_PERSON ''p1'' (CStoredPerson (stamped ''p1'' ''@alice:x''))])"
  using room_event_handler_lookup_order [where w = example_world and roomId = "''!a1''" and c = example_conference_twice
              and event = "example_redemption ''@alice:x''"
              and c' = "example_conference_twice\<lparr>people := [(''p1'', stamped ''p1'' ''@alice:x'')]\<rparr>"
              and eff = "[SentStateEvent ''!db'' RS_STORED_PERSON ''p1''
                            (CStoredPerson (stamped ''p1'' ''@alice:x''))]"]
        room_event_handler_lookup_order [where w = example_world and roomId = "''!a1''" and c = example_conference_backstage
              and event = "example_redemption ''@alice:x''"
              and c' = "example_conference_backstage\<lparr>people := [(''p1'', stamped ''p1'' ''@alice:x'')]\<rparr>"
              and eff = "[SentStateEvent ''!db'' RS_STORED_PERSON ''p1''
                            (CStoredPerson (stamped ''p1'' ''@alice:x''))]"]
        room_event_handler_lookup_order [where w = example_world and roomId = "''!a1''" and c = example_conference_talk
              and event = "example_redemption ''@alice:x''"
              and c' = "example_conference_talk\<lparr>people := [(''p1'', stamped ''p1'' ''@alice:x'')]\<rparr>"
              and eff = "[SentStateEvent ''!db'' RS_STORED_PERSON ''p1''
                            (CStoredPerson (stamped ''p1'' ''@alice:x''))]"]
        room_event_handler_lookup_order [where w = example_world and roomId = "''!a1''" and c = example_conference_none
              and event = "example_redemption ''@alice:x''"
              and c' = "example_conference_none\<lparr>people := [(''p1'', stamped ''p1'' ''@alice:x'')]\<rparr>"
              and eff = "[SentStateEvent ''!db'' RS_STORED_PERSON ''p1''
                            (CStoredPerson (stamped ''p1'' ''@alice:x''))]"]
        example_correlated
  by (simp add: example_moderate_simps)


end
